theory Spec2Isabelle
  imports Main "HOL-Library.Sublist"
begin

section \<open>Paths (\<open>os.path\<close> on a POSIX host)\<close>

text \<open>
  \<open>mx.join\<close>, \<open>mx.basename\<close>, \<open>mx.dirname\<close> and \<open>mx.isabs\<close> are the functions of
  \<open>os.path\<close>. They are written here as \<open>posixpath\<close> computes them; a path is a
  \<open>string\<close>, the separator is \<open>/\<close>.
\<close>

definition isabs :: "string \<Rightarrow> bool" where
  "isabs p = prefix ''/'' p"

text \<open>\<open>join(a, b)\<close>: an absolute \<open>b\<close> replaces \<open>a\<close>; otherwise \<open>b\<close> is appended, after a
  separator unless \<open>a\<close> is empty or already ends with one.\<close>

definition join :: "string \<Rightarrow> string \<Rightarrow> string" where
  "join a b =
     (if prefix ''/'' b then b
      else if a = [] \<or> suffix ''/'' a then a @ b
      else a @ ''/'' @ b)"

text \<open>\<open>basename(p) = p[p.rfind('/') + 1:]\<close>.\<close>

definition basename :: "string \<Rightarrow> string" where
  "basename p = rev (takeWhile (\<lambda>c. c \<noteq> CHR ''/'') (rev p))"

text \<open>\<open>dirname(p)\<close>: the part up to and including the last separator, with trailing
  separators stripped unless it consists of separators only.\<close>

definition dirname :: "string \<Rightarrow> string" where
  "dirname p =
     (let head = rev (dropWhile (\<lambda>c. c \<noteq> CHR ''/'') (rev p))
      in if head \<noteq> [] \<and> (\<exists>c \<in> set head. c \<noteq> CHR ''/'')
         then rev (dropWhile (\<lambda>c. c = CHR ''/'') (rev head))
         else head)"

text \<open>\<open>splitext(p)[1]\<close>: the text from the last dot of the last path component on,
  unless that component has no dot or only leading dots in front of it.\<close>

definition splitext_ext :: "string \<Rightarrow> string" where
  "splitext_ext p =
     (let name = basename p;
          stem = rev (dropWhile (\<lambda>c. c \<noteq> CHR ''.'') (rev name))
      in if stem = [] then []
         else if \<forall>c \<in> set (butlast stem). c = CHR ''.'' then []
         else CHR ''.'' # rev (takeWhile (\<lambda>c. c \<noteq> CHR ''.'') (rev name)))"

section \<open>Errors\<close>

text \<open>
  \<open>mx.abort\<close> ends the run; its argument is kept. The list of unsupported
  extensions in the message of \<open>generate_manifest\<close> comes from a Python set, so its
  order is not fixed: the model keeps the set. The other constructors are the Python
  exceptions this module can raise by itself.
\<close>

datatype error =
    Abort_message string
  | Abort_unsupported "string set"
  | Abort_code int
  | Abort_output "string list" "string list"
  | AssertionError
  | IndexError
  | TypeError

section \<open>Manifest statements\<close>

text \<open>
  The manifest is written through \<open>ninja_syntax.Writer\<close>, a library outside this
  repository. The model records the calls made on the writer, in order, with their
  arguments (\<open>None\<close> for a list argument is the empty list, and \<open>include\<close> stands for
  the call with the escaped path); the bytes that reach the file are the writer's
  rendering of that sequence, a function \<open>writer\<close> of the host.
\<close>

datatype val = Str string | Lst "string list"

datatype stmt =
    Comment string
  | Newline
  | Variable string val
  | Include string
  | Rule string string bool
  | Build "string list" string "string list" "string list"

section \<open>The host and the executor\<close>

text \<open>
  The module runs in a world of files and processes. The model keeps the files this
  module reads and writes (the manifest and its temporary copy), by path, and the list
  of the commands it has run, oldest first.
\<close>

record world =
  files :: "string \<rightharpoonup> string"
  trace :: "string list list"

definition exists :: "world \<Rightarrow> string \<Rightarrow> bool" where
  "exists w p = (files w p \<noteq> None)"

text \<open>
  What \<open>mx\<close> reports about the host and the command line, and the outcome of a process:
  \<open>run_process cmd cwd w\<close> is the exit code and the lines on standard output and on
  standard error of \<open>mx.run(cmd, nonZeroIsFatal=False, cwd=cwd)\<close>. The remaining fields
  are functions of \<open>mx\<close>, \<open>mx_subst\<close> and \<open>os.path\<close> that this module calls and does
  not define: the home of the target JDK, the naming conventions of the platform,
  \<open>mx_subst.path_substitutions.substitute\<close>, \<open>os.path.relpath(path, start)\<close>, the
  rendering of the manifest writer, the \<open>ninja\<close> binary and the parallelism of a task,
  the path that \<open>tempfile.mkstemp\<close> picks beside a file, whether a compile-command
  export was asked for (what \<open>mx_compdb.CompdbCapture\<close> yields), the answers of the
  superclass of a build task to \<open>buildForbidden\<close> and \<open>needsBuild\<close> for a target
  architecture, and the modification time of a path, if it exists.
\<close>

record env =
  get_arch :: string
  get_os :: string
  MX_VERBOSE :: "string option"
  opt_verbose :: bool
  opt_very_verbose :: bool
  opt_multiarch :: bool
  run_process :: "string list \<Rightarrow> string \<Rightarrow> world \<Rightarrow> int \<times> string list \<times> string list"
  is_morello :: bool
  jdk_home :: string
  add_lib_prefix :: "string \<Rightarrow> string"
  add_lib_suffix :: "string \<Rightarrow> string"
  exe_suffix :: "string \<Rightarrow> string"
  substitute :: "string \<Rightarrow> string"
  relpath :: "string \<Rightarrow> string \<Rightarrow> string"
  writer :: "stmt list \<Rightarrow> string"
  ninja_binary :: string
  task_parallelism :: string
  mkstemp :: "string \<Rightarrow> world \<Rightarrow> string"
  compdb_requested :: bool
  super_buildForbidden :: "string \<Rightarrow> bool"
  super_needsBuild :: "string \<Rightarrow> world \<Rightarrow> bool \<times> string option"
  timestamp :: "world \<Rightarrow> string \<Rightarrow> nat option"

text \<open>Truth value of \<open>mx.get_env('MX_VERBOSE', None)\<close>: unset and empty are false.\<close>

definition truthy :: "string option \<Rightarrow> bool" where
  "truthy v = (case v of None \<Rightarrow> False | Some s \<Rightarrow> s \<noteq> [])"

section \<open>Toolchain registry\<close>

record Toolchain =
  tc_target_arch :: string

definition Toolchain_for :: "string \<Rightarrow> Toolchain" where
  "Toolchain_for target_arch = \<lparr>tc_target_arch = target_arch\<rparr>"

definition target :: "env \<Rightarrow> Toolchain \<Rightarrow> string" where
  "target e tc = get_os e @ ''-'' @ tc_target_arch tc"

definition is_native :: "env \<Rightarrow> Toolchain \<Rightarrow> bool" where
  "is_native e tc = (tc_target_arch tc = get_arch e)"

definition is_available :: "env \<Rightarrow> Toolchain \<Rightarrow> bool" where
  "is_available e tc = is_native e tc"

section \<open>Ninja: the executor adapter\<close>

record Ninja =
  binary :: string
  build_dir :: string
  parallelism :: string
  targets :: "string list"

definition Ninja_cmd :: "env \<Rightarrow> Ninja \<Rightarrow> string list \<Rightarrow> string list" where
  "Ninja_cmd e n args =
     [binary n, ''-j'', parallelism n]
     @ (if opt_very_verbose e \<or> truthy (MX_VERBOSE e) then [''-v''] else [])
     @ args"

text \<open>
  \<open>Ninja._run\<close>: one process; a non-zero exit code aborts, with the code when verbose
  and with the captured output otherwise.
\<close>

definition Ninja_run ::
  "env \<Rightarrow> Ninja \<Rightarrow> string list \<Rightarrow> world \<Rightarrow> (error + string list \<times> string list) \<times> world" where
  "Ninja_run e n args w =
     (let cmd = Ninja_cmd e n args;
          (rc, out, err) = run_process e cmd (build_dir n) w;
          w' = w\<lparr>trace := trace w @ [cmd]\<rparr>
      in if rc \<noteq> 0
         then (Inl (if opt_verbose e \<or> truthy (MX_VERBOSE e)
                    then Abort_code rc else Abort_output out err), w')
         else (Inr (out, err), w'))"

text \<open>
  \<open>Ninja.needs_build\<close>: a dry run that explains. Any line on standard error means
  work; the reason is the first line that starts with \<open>ninja explain:\<close> (indexing an
  empty selection raises). No line there asserts that the output is the single line
  \<open>ninja: no work to do.\<close>
\<close>

definition Ninja_needs_build ::
  "env \<Rightarrow> Ninja \<Rightarrow> world \<Rightarrow> (error + bool \<times> string option) \<times> world" where
  "Ninja_needs_build e n w =
     (case Ninja_run e n ([''-n'', ''-d'', ''explain''] @ targets n) w of
        (Inl x, w') \<Rightarrow> (Inl x, w')
      | (Inr (out, details), w') \<Rightarrow>
          if details \<noteq> [] then
            (case filter (prefix ''ninja explain:'') details of
               [] \<Rightarrow> (Inl IndexError, w')
             | l # _ \<Rightarrow> (Inr (True, Some l), w'))
          else if out = [''ninja: no work to do.''] then (Inr (False, Some (hd out)), w')
          else (Inl AssertionError, w'))"

definition Ninja_compdb :: "env \<Rightarrow> Ninja \<Rightarrow> world \<Rightarrow> (error + unit) \<times> world" where
  "Ninja_compdb e n w =
     (case Ninja_run e n ([''-t'', ''compdb''] @ targets n) w of
        (Inl x, w') \<Rightarrow> (Inl x, w')
      | (Inr _, w') \<Rightarrow> (Inr (), w'))"

definition Ninja_build :: "env \<Rightarrow> Ninja \<Rightarrow> world \<Rightarrow> (error + unit) \<times> world" where
  "Ninja_build e n w =
     (case Ninja_run e n (targets n) w of
        (Inl x, w') \<Rightarrow> (Inl x, w')
      | (Inr _, w') \<Rightarrow> (Inr (), w'))"

definition Ninja_clean :: "env \<Rightarrow> Ninja \<Rightarrow> world \<Rightarrow> (error + unit) \<times> world" where
  "Ninja_clean e n w =
     (case Ninja_run e n ([''-t'', ''clean''] @ targets n) w of
        (Inl x, w') \<Rightarrow> (Inl x, w')
      | (Inr _, w') \<Rightarrow> (Inr (), w'))"

section \<open>NinjaBuildTask\<close>

text \<open>
  The task of one project for one target architecture: \<open>out_dir\<close> is the project's
  output root joined with the architecture, \<open>manifest\<close> is \<open>build.ninja\<close> in it,
  \<open>reason\<close> is \<open>_reason\<close> (\<open>None\<close> until a staleness query sets it).
\<close>

record NinjaBuildTask =
  target_arch :: string
  out_dir :: string
  reason :: "string option"
  manifest :: string
  ninja :: Ninja
  built :: bool

definition default_manifest :: string where
  "default_manifest = ''build.ninja''"

text \<open>
  \<open>NinjaBuildTask.needsBuild\<close>. The check of the superclass is code of \<open>mx\<close> itself;
  its answer \<open>generic\<close> (needed, reason) is an argument. \<open>_reason\<close> is assigned from it at
  once, so it keeps that value when the dry run raises.
\<close>

definition NinjaBuildTask_needsBuild ::
  "env \<Rightarrow> NinjaBuildTask \<Rightarrow> bool \<times> string option \<Rightarrow> world
     \<Rightarrow> (error + bool \<times> string option) \<times> NinjaBuildTask \<times> world" where
  "NinjaBuildTask_needsBuild e t generic w =
     (let (is_needed, r) = generic;
          t1 = t\<lparr>reason := r\<rparr>
      in if is_needed then (Inr (True, reason t1), t1, w)
         else if \<not> exists w (manifest t1) then
           (let t2 = t1\<lparr>reason := Some ''no build manifest''\<rparr>
            in (Inr (True, reason t2), t2, w))
         else
           (case Ninja_needs_build e (ninja t1) w of
              (Inl x, w') \<Rightarrow> (Inl x, t1, w')
            | (Inr (is_needed', r'), w') \<Rightarrow>
                (let t3 = t1\<lparr>reason := r'\<rparr> in (Inr (is_needed', reason t3), t3, w'))))"

section \<open>Projects and their sources\<close>

datatype kind = static_lib | shared_lib | executable

text \<open>
  \<open>getattr(d, 'include_dirs', [])\<close> reads an attribute that a dependency may lack;
  the \<open>JAVA_HOME\<close> dependency has it set to \<open>None\<close> until its build task is made.
\<close>

datatype 'a attr = Absent | NoneValue | Value 'a

record Dependency =
  dep_include_dirs :: "string list attr"
  dep_libs :: "string list attr"

text \<open>
  A resolved \<open>DefaultNativeProject\<close>. \<open>multiarch\<close> is the attribute as the
  constructor leaves it: empty when not declared, otherwise the declared architectures
  without duplicates. \<open>walk\<close> is what \<open>os.walk\<close> yields over the
  source directories, each directory as its path relative to the project and its
  files; \<open>include_listing\<close> is \<open>os.listdir\<close> of the \<open>include\<close> directory;
  \<open>toolchain_output\<close> is \<open>self.toolchain.get_output()\<close>.
\<close>

record Project =
  name :: string
  dir :: string
  project_out_dir :: string
  multiarch :: "string list"
  deliverable :: string
  native :: kind
  project_cflags :: "string list"
  project_ldflags :: "string list"
  project_ldlibs :: "string list"
  toolchain_output :: string
  asm_requires_cpp :: bool
  buildDependencies :: "Dependency list"
  walk :: "(string \<times> string list) list"
  include_listing :: "string list"
  suite_py :: string
  vc_dir :: string

text \<open>\<open>d[k] += vs\<close> on a \<open>defaultdict(list)\<close>, which keeps its keys in insertion order.\<close>

fun dict_extend :: "'k \<Rightarrow> 'v list \<Rightarrow> ('k \<times> 'v list) list \<Rightarrow> ('k \<times> 'v list) list" where
  "dict_extend k vs [] = [(k, vs)]"
| "dict_extend k vs ((k', ws) # d) =
     (if k = k' then (k', ws @ vs) # d else (k', ws) # dict_extend k vs d)"

text \<open>\<open>d.get(k, [])\<close>.\<close>

definition dict_get :: "('k \<times> 'v list) list \<Rightarrow> 'k \<Rightarrow> 'v list" where
  "dict_get d k = (case map_of d k of None \<Rightarrow> [] | Some vs \<Rightarrow> vs)"

text \<open>The files of one directory grouped by extension, each with its joined path.\<close>

definition grouping :: "string \<Rightarrow> string list \<Rightarrow> (string \<times> string list) list" where
  "grouping rel_root fs =
     fold (\<lambda>f g. dict_extend (splitext_ext f) [join rel_root f] g) fs []"

text \<open>\<open>_source['files']\<close>: the groups of every directory, appended in walking order.\<close>

definition source_files :: "Project \<Rightarrow> (string \<times> string list) list" where
  "source_files p =
     fold (\<lambda>(rel_root, fs) d. fold (\<lambda>(ext, paths) d'. dict_extend ext paths d')
                                  (grouping rel_root fs) d)
          (walk p) []"

text \<open>
  The same sets without the dictionary, for comparison: the files with a given
  extension, in walking order, and the extensions that occur.
\<close>

definition files_with_ext :: "Project \<Rightarrow> string \<Rightarrow> string list" where
  "files_with_ext p ext =
     concat (map (\<lambda>(rel_root, fs). map (join rel_root) (filter (\<lambda>f. splitext_ext f = ext) fs))
                 (walk p))"

definition extensions :: "Project \<Rightarrow> string set" where
  "extensions p = (\<Union>(rel_root, fs) \<in> set (walk p). splitext_ext ` set fs)"

definition source_tree :: "Project \<Rightarrow> string list" where
  "source_tree p = map fst (walk p)"

definition h_files :: "Project \<Rightarrow> string list" where
  "h_files p = dict_get (source_files p) ''.h''"

definition c_files :: "Project \<Rightarrow> string list" where
  "c_files p = dict_get (source_files p) ''.c''"

definition cxx_files :: "Project \<Rightarrow> string list" where
  "cxx_files p = dict_get (source_files p) ''.cc''"

definition asm_sources :: "Project \<Rightarrow> string list" where
  "asm_sources p = dict_get (source_files p) ''.S''"

section \<open>Layout and flag policy\<close>

definition project_target :: "env \<Rightarrow> Project \<Rightarrow> string" where
  "project_target e p =
     (case native p of
        static_lib \<Rightarrow>
          add_lib_prefix e (deliverable p) @ (if get_os e = ''windows'' then ''.lib'' else ''.a'')
      | shared_lib \<Rightarrow> add_lib_suffix e (add_lib_prefix e (deliverable p))
      | executable \<Rightarrow> exe_suffix e (deliverable p))"

definition quote_spaces :: "string \<Rightarrow> string" where
  "quote_spaces path = (if CHR '' '' \<in> set path then ''\"'' @ path @ ''\"'' else path)"

definition add_debug_prefix :: "string \<Rightarrow> string" where
  "add_debug_prefix prefix_dir =
     ''-fdebug-prefix-map='' @ quote_spaces prefix_dir @ ''='' @ quote_spaces (basename prefix_dir)"

definition cflags :: "env \<Rightarrow> Project \<Rightarrow> string list" where
  "cflags e p =
     (if native p = shared_lib
      then (if get_os e = ''windows'' then [''-MD''] else [''-fPIC'']) else [])
     @ (if is_morello e \<and> name p \<noteq> ''com.oracle.jvmtiasmagent''
        then [''-O0'', ''-Wshorten-cap-to-int'', ''-Wcheri'', ''-march=morello'',
              ''-mabi=purecap'', ''-Xclang'', ''-morello-vararg=new'', ''-mcpu=rainier'']
        else [])
     @ (if get_os e = ''linux'' \<or> get_os e = ''darwin''
        then [add_debug_prefix (vc_dir p), add_debug_prefix (jdk_home e),
              ''-gno-record-gcc-switches'']
        else [])
     @ project_cflags p"

definition ldflags :: "env \<Rightarrow> Project \<Rightarrow> string list" where
  "ldflags e p =
     (if native p = shared_lib
      then (if get_os e = ''darwin'' then [''-dynamiclib'', ''-undefined'', ''dynamic_lookup'']
            else if get_os e = ''windows'' then [''-dll'']
            else [''-shared'', ''-fPIC''])
      else [])
     @ (if is_morello e \<and> name p \<noteq> ''com.oracle.jvmtiasmagent''
        then [''-fsanitize=cheri'', ''-Wshorten-cap-to-int'', ''-mabi=purecap'', ''-fuse-ld=lld'']
        else [])
     @ project_ldflags p"

section \<open>NinjaManifestGenerator\<close>

definition gen_variables :: "(string \<times> val) list \<Rightarrow> stmt list" where
  "gen_variables kvs = map (\<lambda>(key, v). Variable key v) kvs @ [Newline]"

definition gen_resolve :: "string \<Rightarrow> string" where
  "gen_resolve path = join ''$project'' path"

definition splitext_root :: "string \<Rightarrow> string" where
  "splitext_root p = take (length p - length (splitext_ext p)) p"

definition gen_output :: "env \<Rightarrow> string \<Rightarrow> string option \<Rightarrow> string" where
  "gen_output e source_file ext =
     splitext_root source_file
     @ (case ext of None \<Rightarrow> (if get_os e = ''windows'' then ''.obj'' else ''.o'')
                  | Some x \<Rightarrow> x)"

definition gen_quote :: "Project \<Rightarrow> string \<Rightarrow> string" where
  "gen_quote p path =
     (if CHR '' '' \<in> set path \<or> (sublist ''$project'' path \<and> CHR '' '' \<in> set (dir p))
      then ''\"'' @ path @ ''\"'' else path)"

definition gen_include_dirs :: "Project \<Rightarrow> string list \<Rightarrow> stmt list" where
  "gen_include_dirs p dirs =
     gen_variables [(''includes'', Lst (map (\<lambda>d. ''-I'' @ gen_quote p (gen_resolve d)) dirs))]"

definition gen_cc :: "env \<Rightarrow> string \<Rightarrow> stmt list" where
  "gen_cc e source_file =
     [Build [gen_output e source_file None] ''cc'' [gen_resolve source_file] []]"

definition gen_cxx :: "env \<Rightarrow> string \<Rightarrow> stmt list" where
  "gen_cxx e source_file =
     [Build [gen_output e source_file None] ''cxx'' [gen_resolve source_file] []]"

definition gen_asm :: "env \<Rightarrow> Project \<Rightarrow> string \<Rightarrow> stmt list" where
  "gen_asm e p source_file =
     (if asm_requires_cpp p
      then [Build [gen_output e source_file (Some ''.asm'')] ''cpp'' [gen_resolve source_file] [],
            Build [gen_output e source_file None] ''asm''
                  [gen_output e source_file (Some ''.asm'')] []]
      else [Build [gen_output e source_file None] ''asm'' [gen_resolve source_file] []])"

text \<open>\<open>_generate\<close> and \<open>_generate_mx_interface\<close>, run by the constructor.\<close>

definition gen_generate :: "env \<Rightarrow> Project \<Rightarrow> string \<Rightarrow> stmt list" where
  "gen_generate e p output_dir =
     [Comment ''Generated by mx. Do not edit.'', Newline]
     @ gen_variables [(''ninja_required_version'', Str ''1.3'')]
     @ [Comment ''Directories'']
     @ gen_variables [(''project'', Str (relpath e (dir p) output_dir))]
     @ [Comment ''Manifest dependencies'']
     @ map (\<lambda>d. Build [gen_resolve d] ''phony'' [] []) (source_tree p)
     @ [Newline,
        Comment ''Used by mx to check...'',
        Rule ''dry_run'' ''DRY_RUN $out'' True,
        Newline,
        Comment ''...whether manifest needs to be regenerated'',
        Build [default_manifest] ''dry_run'' [] (map gen_resolve (source_tree p) @ [suite_py p]),
        Newline]"

section \<open>DefaultNativeProject.generate_manifest\<close>

text \<open>\<open>list(itertools.chain.from_iterable(getattr(d, a, []) for d in deps))\<close>.\<close>

fun chain_attrs :: "'a list attr list \<Rightarrow> error + 'a list" where
  "chain_attrs [] = Inr []"
| "chain_attrs (Absent # as) = chain_attrs as"
| "chain_attrs (NoneValue # as) = Inl TypeError"
| "chain_attrs (Value xs # as) =
     (case chain_attrs as of Inl x \<Rightarrow> Inl x | Inr ys \<Rightarrow> Inr (xs @ ys))"

text \<open>\<open>collections.OrderedDict.fromkeys(xs).keys()\<close>: a key enters at its first
  occurrence and stays there.\<close>

definition OrderedDict_fromkeys :: "'a list \<Rightarrow> 'a list" where
  "OrderedDict_fromkeys xs = fold (\<lambda>x keys. if x \<in> set keys then keys else keys @ [x]) xs []"

text \<open>
  The spec's wording of the same list, for comparison: duplicates removed while
  preserving first-seen order.
\<close>

fun first_seen :: "'a list \<Rightarrow> 'a list" where
  "first_seen [] = []"
| "first_seen (x # xs) = x # filter (\<lambda>y. y \<noteq> x) (first_seen xs)"

definition supported_extensions :: "string set" where
  "supported_extensions = {''.h'', ''.c'', ''.cc'', ''.S'', ''.swp''}"

definition unsupported_source_files :: "Project \<Rightarrow> string set" where
  "unsupported_source_files p = set (map fst (source_files p)) - supported_extensions"

definition object_files :: "env \<Rightarrow> Project \<Rightarrow> string list" where
  "object_files e p =
     map (\<lambda>f. gen_output e f None) (c_files p)
     @ map (\<lambda>f. gen_output e f None) (cxx_files p)
     @ map (\<lambda>f. gen_output e f None) (asm_sources p)"

text \<open>The statements up to the point where the include directories are collected.\<close>

definition manifest_head :: "env \<Rightarrow> Project \<Rightarrow> string \<Rightarrow> stmt list" where
  "manifest_head e p output_dir =
     gen_generate e p output_dir
     @ [Comment ''Toolchain configuration'',
        Include (join (toolchain_output p) ''toolchain.ninja''),
        Newline]
     @ gen_variables [(''cflags'', Lst (map (substitute e) (cflags e p)))]
     @ (if native p \<noteq> static_lib
        then gen_variables [(''ldflags'', Lst (map (substitute e) (ldflags e p))),
                            (''ldlibs'', Lst (project_ldlibs p))]
        else [])"

text \<open>The statements from the include directories to the comment before the
  deliverable.\<close>

definition manifest_sources :: "env \<Rightarrow> Project \<Rightarrow> string list \<Rightarrow> stmt list" where
  "manifest_sources e p dirs =
     gen_include_dirs p (OrderedDict_fromkeys (map dirname (h_files p) @ dirs))
     @ [Comment ''Compiled project sources'']
     @ concat (map (gen_cc e) (c_files p)) @ [Newline]
     @ concat (map (gen_cxx e) (cxx_files p)) @ [Newline]
     @ concat (map (gen_asm e p) (asm_sources p)) @ [Newline]
     @ [Comment ''Project deliverable'']"

definition write_file :: "string \<Rightarrow> string \<Rightarrow> world \<Rightarrow> world" where
  "write_file path content w = w\<lparr>files := (files w)(path \<mapsto> content)\<rparr>"

text \<open>
  The body of the \<open>with NinjaManifestGenerator(...)\<close> block: the statements written,
  and the exception that ended the writing, if any.
\<close>

definition manifest_statements :: "env \<Rightarrow> Project \<Rightarrow> string \<Rightarrow> stmt list \<times> error option" where
  "manifest_statements e p output_dir =
     (let s1 = manifest_head e p output_dir
      in case chain_attrs (map dep_include_dirs (buildDependencies p)) of
           Inl x \<Rightarrow> (s1, Some x)
         | Inr dirs \<Rightarrow>
             (let s2 = s1 @ manifest_sources e p dirs
              in if native p = static_lib
                 then (s2 @ [Build [project_target e p] ''ar'' (object_files e p) []], None)
                 else
                   (case chain_attrs (map dep_libs (buildDependencies p)) of
                      Inl x \<Rightarrow> (s2, Some x)
                    | Inr libs \<Rightarrow>
                        (s2 @ [Build [project_target e p]
                                 (if cxx_files p \<noteq> [] then ''linkxx'' else ''link'')
                                 (object_files e p @ libs) []], None))))"

text \<open>
  \<open>generate_manifest\<close>. The check of the extensions comes before the file is opened.
  After that the writer's file holds what has been written, also when an exception
  leaves the \<open>with\<close> block, which closes it.
\<close>

definition generate_manifest ::
  "env \<Rightarrow> Project \<Rightarrow> string \<Rightarrow> string \<Rightarrow> world \<Rightarrow> (error + unit) \<times> world" where
  "generate_manifest e p output_dir filename w =
     (if unsupported_source_files p \<noteq> {}
      then (Inl (Abort_unsupported (unsupported_source_files p)), w)
      else
        (case manifest_statements e p output_dir of
           (ss, r) \<Rightarrow>
             ((case r of None \<Rightarrow> Inr () | Some x \<Rightarrow> Inl x),
              write_file (join output_dir filename) (writer e ss) w)))"

section \<open>Building\<close>

text \<open>\<open>NinjaProject._build_task\<close>: the constructor chain of \<open>NinjaBuildTask\<close>.\<close>

definition build_task :: "env \<Rightarrow> Project \<Rightarrow> string \<Rightarrow> NinjaBuildTask" where
  "build_task e p arch =
     (let od = join (project_out_dir p) arch
      in \<lparr>target_arch = arch,
          out_dir = od,
          reason = None,
          manifest = join od default_manifest,
          ninja = \<lparr>binary = ninja_binary e, build_dir = od,
                   parallelism = task_parallelism e, targets = []\<rparr>,
          built = False\<rparr>)"

text \<open>\<open>TargetArchBuildTask.buildForbidden\<close>, given the answer of the superclass.\<close>

definition buildForbidden :: "env \<Rightarrow> NinjaBuildTask \<Rightarrow> bool \<Rightarrow> error + bool" where
  "buildForbidden e t forbidden =
     (if \<not> forbidden \<and> \<not> is_available e (Toolchain_for (target_arch t))
      then Inl (Abort_message (''Missing toolchain for '' @ target_arch t @ ''.''))
      else Inr forbidden)"

text \<open>
  Modelled from the spec: \<open>mx.SafeFileCreation\<close>, which is not part of this module.
  The manifest is written to a temporary location and swapped into place whether or
  not the content changed; a failure in between leaves the manifest as it was. Entering
  creates the temporary file, leaving without an exception renames it over the target,
  leaving with one removes it.
\<close>

definition SafeFileCreation_enter :: "string \<Rightarrow> world \<Rightarrow> world" where
  "SafeFileCreation_enter tmpPath w = write_file tmpPath [] w"

definition SafeFileCreation_exit :: "string \<Rightarrow> string \<Rightarrow> bool \<Rightarrow> world \<Rightarrow> world" where
  "SafeFileCreation_exit path tmpPath failed w =
     (if failed \<or> \<not> exists w tmpPath then w\<lparr>files := (files w)(tmpPath := None)\<rparr>
      else w\<lparr>files := (files w)(tmpPath := None, path := files w tmpPath)\<rparr>)"

text \<open>The condition under which \<open>build\<close> writes the manifest anew.\<close>

definition regenerates :: "NinjaBuildTask \<Rightarrow> world \<Rightarrow> bool" where
  "regenerates t w =
     (\<not> exists w (manifest t)
      \<or> (case reason t of
            None \<Rightarrow> True
          | Some r \<Rightarrow> sublist (basename (manifest t)) r \<or> sublist ''phony'' r))"

text \<open>The body of the \<open>with mx.SafeFileCreation(...)\<close> block; \<open>filecmp.cmp\<close> with
  \<open>shallow=False\<close> compares the contents.\<close>

definition regenerate_body ::
  "env \<Rightarrow> Project \<Rightarrow> NinjaBuildTask \<Rightarrow> string \<Rightarrow> world \<Rightarrow> (error + unit) \<times> world" where
  "regenerate_body e p t tmpPath w =
     (case generate_manifest e p (dirname tmpPath) (basename tmpPath) w of
        (Inl x, w1) \<Rightarrow> (Inl x, w1)
      | (Inr _, w1) \<Rightarrow>
          if exists w1 (manifest t) \<and> files w1 (manifest t) \<noteq> files w1 tmpPath
          then Ninja_clean e (ninja t) w1
          else (Inr (), w1))"

definition regenerate ::
  "env \<Rightarrow> Project \<Rightarrow> NinjaBuildTask \<Rightarrow> world \<Rightarrow> (error + unit) \<times> world" where
  "regenerate e p t w =
     (let tmpPath = mkstemp e (manifest t) w
      in case regenerate_body e p t tmpPath (SafeFileCreation_enter tmpPath w) of
           (Inl x, w1) \<Rightarrow> (Inl x, SafeFileCreation_exit (manifest t) tmpPath True w1)
         | (Inr u, w1) \<Rightarrow> (Inr u, SafeFileCreation_exit (manifest t) tmpPath False w1))"

text \<open>The second half of \<open>build\<close>: the export when one was asked for, then the build.
  An abort of the export leaves before the build is reached.\<close>

definition export_and_build :: "env \<Rightarrow> NinjaBuildTask \<Rightarrow> world \<Rightarrow> (error + unit) \<times> world" where
  "export_and_build e t w =
     (if compdb_requested e
      then (case Ninja_compdb e (ninja t) w of
              (Inl x, w1) \<Rightarrow> (Inl x, w1)
            | (Inr _, w1) \<Rightarrow> Ninja_build e (ninja t) w1)
      else Ninja_build e (ninja t) w)"

definition NinjaBuildTask_build ::
  "env \<Rightarrow> Project \<Rightarrow> NinjaBuildTask \<Rightarrow> world \<Rightarrow> (error + unit) \<times> world" where
  "NinjaBuildTask_build e p t w =
     (if regenerates t w
      then (case regenerate e p t w of
              (Inl x, w1) \<Rightarrow> (Inl x, w1)
            | (Inr _, w1) \<Rightarrow> export_and_build e t w1)
      else export_and_build e t w)"

text \<open>
  Modelled from the spec: \<open>mx.BuildTask.execute\<close>, the driver of one task, which is not
  part of this module. The toolchain is verified before the task runs; then the
  staleness protocol decides; a needed build runs and sets \<open>built\<close>, a build that is
  forbidden or not needed is skipped.
\<close>

definition BuildTask_execute ::
  "env \<Rightarrow> Project \<Rightarrow> NinjaBuildTask \<Rightarrow> world \<Rightarrow> (error + NinjaBuildTask) \<times> world" where
  "BuildTask_execute e p t w =
     (case buildForbidden e t (super_buildForbidden e (target_arch t)) of
        Inl x \<Rightarrow> (Inl x, w)
      | Inr True \<Rightarrow> (Inr (t\<lparr>built := False\<rparr>), w)
      | Inr False \<Rightarrow>
          (case NinjaBuildTask_needsBuild e t (super_needsBuild e (target_arch t) w) w of
             (Inl x, t1, w1) \<Rightarrow> (Inl x, w1)
           | (Inr (False, _), t1, w1) \<Rightarrow> (Inr (t1\<lparr>built := False\<rparr>), w1)
           | (Inr (True, _), t1, w1) \<Rightarrow>
               (case NinjaBuildTask_build e p t1 w1 of
                  (Inl x, w2) \<Rightarrow> (Inl x, w2)
                | (Inr _, w2) \<Rightarrow> (Inr (t1\<lparr>built := True\<rparr>), w2))))"

section \<open>MultiarchProject\<close>

definition use_multiarch :: "env \<Rightarrow> Project \<Rightarrow> bool" where
  "use_multiarch e p = (multiarch p \<noteq> [] \<and> opt_multiarch e)"











section \<open>Archivable results\<close>

text \<open>A generator yields until it raises: what was yielded, and the exception if any.\<close>

fun collect :: "(error + 'a) list \<Rightarrow> 'a list \<times> error option" where
  "collect [] = ([], None)"
| "collect (Inl x # _) = ([], Some x)"
| "collect (Inr a # xs) = (case collect xs of (ys, r) \<Rightarrow> (a # ys, r))"

definition result :: "bool \<Rightarrow> string \<Rightarrow> string \<Rightarrow> error + string \<times> string" where
  "result use_relpath base_dir file_path =
     (if isabs file_path then Inl AssertionError
      else Inr (join base_dir file_path,
                if use_relpath then file_path else basename file_path))"

text \<open>\<open>DefaultNativeProject._archivable_results\<close>, item by item.\<close>

definition archivable_results ::
  "env \<Rightarrow> Project \<Rightarrow> string \<Rightarrow> bool \<Rightarrow> bool \<Rightarrow> (error + string \<times> string) list" where
  "archivable_results e p arch use_relpath single =
     result use_relpath (join (project_out_dir p) arch) (project_target e p)
     # (if single then []
        else map (\<lambda>header. result use_relpath (dir p) (join ''include'' header))
                 (include_listing p))"

definition archs :: "env \<Rightarrow> Project \<Rightarrow> string list" where
  "archs e p = (if use_multiarch e p then multiarch p else [get_arch e])"

definition target_arch_path :: "env \<Rightarrow> Project \<Rightarrow> string \<Rightarrow> string" where
  "target_arch_path e p arch = (if multiarch p \<noteq> [] then target e (Toolchain_for arch) else [])"

definition arch_results ::
  "env \<Rightarrow> Project \<Rightarrow> bool \<Rightarrow> bool \<Rightarrow> string \<Rightarrow> (error + string \<times> string) list" where
  "arch_results e p use_relpath single arch =
     (if is_native e (Toolchain_for arch) \<or> \<not> single
      then map (map_sum id (\<lambda>(file_path, archive_path).
                  (file_path, join (target_arch_path e p arch) archive_path)))
               (archivable_results e p arch use_relpath single)
      else [])"

definition getArchivableResults ::
  "env \<Rightarrow> Project \<Rightarrow> bool \<Rightarrow> bool \<Rightarrow> (string \<times> string) list \<times> error option" where
  "getArchivableResults e p use_relpath single =
     collect (concat (map (arch_results e p use_relpath single) (archs e p)))"

section \<open>Reading a manifest\<close>

text \<open>The statements that set \<open>includes\<close>, the build statements of a rule, and the
  include directories of the dependencies that have the attribute.\<close>

definition is_includes :: "stmt \<Rightarrow> bool" where
  "is_includes s = (case s of Variable key _ \<Rightarrow> key = ''includes'' | _ \<Rightarrow> False)"

definition has_rule :: "string \<Rightarrow> stmt \<Rightarrow> bool" where
  "has_rule r s = (case s of Build _ r' _ _ \<Rightarrow> r' = r | _ \<Rightarrow> False)"

definition getattr_default :: "'a list attr \<Rightarrow> 'a list" where
  "getattr_default a = (case a of Value v \<Rightarrow> v | _ \<Rightarrow> [])"

definition dependency_include_dirs :: "Project \<Rightarrow> string list" where
  "dependency_include_dirs p = concat (map (\<lambda>d. getattr_default (dep_include_dirs d)) (buildDependencies p))"

text \<open>The commands of the executor for a task, and the argument of the abort after a
  process with a non-zero exit code.\<close>

definition clean_cmd :: "env \<Rightarrow> NinjaBuildTask \<Rightarrow> string list" where
  "clean_cmd e t = Ninja_cmd e (ninja t) ([''-t'', ''clean''] @ targets (ninja t))"

definition compdb_cmd :: "env \<Rightarrow> NinjaBuildTask \<Rightarrow> string list" where
  "compdb_cmd e t = Ninja_cmd e (ninja t) ([''-t'', ''compdb''] @ targets (ninja t))"

definition build_cmd :: "env \<Rightarrow> NinjaBuildTask \<Rightarrow> string list" where
  "build_cmd e t = Ninja_cmd e (ninja t) (targets (ninja t))"

definition abort_of :: "env \<Rightarrow> int \<times> string list \<times> string list \<Rightarrow> error" where
  "abort_of e r =
     (if opt_verbose e \<or> truthy (MX_VERBOSE e) then Abort_code (fst r)
      else Abort_output (fst (snd r)) (snd (snd r)))"

text \<open>What a regeneration writes for a task, and whether it differs from the manifest on
  disk.\<close>

definition new_manifest :: "env \<Rightarrow> Project \<Rightarrow> NinjaBuildTask \<Rightarrow> world \<Rightarrow> string" where
  "new_manifest e p t w =
     writer e (fst (manifest_statements e p (dirname (mkstemp e (manifest t) w))))"

definition manifest_changed :: "env \<Rightarrow> Project \<Rightarrow> NinjaBuildTask \<Rightarrow> world \<Rightarrow> bool" where
  "manifest_changed e p t w =
     (exists w (manifest t) \<and> files w (manifest t) \<noteq> Some (new_manifest e p t w))"

text \<open>The world in which \<open>clean\<close> runs: the temporary file holds the new manifest, the
  manifest is still the previous one.\<close>

definition world_with_tmp :: "env \<Rightarrow> Project \<Rightarrow> NinjaBuildTask \<Rightarrow> world \<Rightarrow> world" where
  "world_with_tmp e p t w = write_file (mkstemp e (manifest t) w) (new_manifest e p t w) w"

text \<open>What one architecture contributes to the archivable results when nothing raises:
  the pair of the deliverable and the pair of a header, and the archive path of a file
  before the prefix of the architecture.\<close>

definition archive_name :: "bool \<Rightarrow> string \<Rightarrow> string" where
  "archive_name use_relpath file_path = (if use_relpath then file_path else basename file_path)"

definition deliverable_pair :: "env \<Rightarrow> Project \<Rightarrow> bool \<Rightarrow> string \<Rightarrow> string \<times> string" where
  "deliverable_pair e p use_relpath arch =
     (join (join (project_out_dir p) arch) (project_target e p),
      join (target_arch_path e p arch)
           (if use_relpath then project_target e p else basename (project_target e p)))"

definition header_pair :: "env \<Rightarrow> Project \<Rightarrow> bool \<Rightarrow> string \<Rightarrow> string \<Rightarrow> string \<times> string" where
  "header_pair e p use_relpath arch header =
     (join (dir p) (join ''include'' header),
      join (target_arch_path e p arch)
           (if use_relpath then join ''include'' header else basename (join ''include'' header)))"


section \<open>An example project on an example host\<close>

definition example_env :: env where
  "example_env =
     \<lparr>get_arch = ''amd64'', get_os = ''linux'', MX_VERBOSE = None,
      opt_verbose = False, opt_very_verbose = False, opt_multiarch = True,
      run_process = (\<lambda>cmd cwd w.
         if ''-n'' \<in> set cmd then
           (if files w (join cwd ''build.ninja'') = Some ''old''
            then (0, [], [''ninja explain: a.o is dirty''])
            else (0, [''ninja: no work to do.''], []))
         else if ''compdb'' \<in> set cmd then (1, [], [''compdb failed''])
         else (0, [], [])),
      is_morello = False, jdk_home = ''/jdk'',
      add_lib_prefix = (\<lambda>n. ''lib'' @ n), add_lib_suffix = (\<lambda>n. n @ ''.so''),
      exe_suffix = (\<lambda>n. n),
      substitute = (\<lambda>s. s), relpath = (\<lambda>path start. ''../../..''),
      writer = (\<lambda>ss. concat (map (\<lambda>s. case s of
           Comment c \<Rightarrow> ''# '' @ c @ ''\<newline>''
         | Newline \<Rightarrow> ''\<newline>''
         | Variable k (Str v) \<Rightarrow> k @ '' = '' @ v @ ''\<newline>''
         | Variable k (Lst vs) \<Rightarrow> k @ '' ='' @ concat (map (\<lambda>v. '' '' @ v) vs) @ ''\<newline>''
         | Include i \<Rightarrow> ''include '' @ i @ ''\<newline>''
         | Rule n c g \<Rightarrow> ''rule '' @ n @ ''\<newline>''
         | Build outs r ins imp \<Rightarrow> ''build'' @ concat (map (\<lambda>v. '' '' @ v) outs) @ '': '' @ r
              @ concat (map (\<lambda>v. '' '' @ v) ins) @ concat (map (\<lambda>v. '' '' @ v) imp) @ ''\<newline>'') ss)),
      ninja_binary = ''ninja'', task_parallelism = ''1'',
      mkstemp = (\<lambda>path w. join (dirname path) (''tmp0'' @ basename path)),
      compdb_requested = False,
      super_buildForbidden = (\<lambda>arch. False),
      super_needsBuild = (\<lambda>arch w. (False, None)),
      timestamp = (\<lambda>w path. None)\<rparr>"


definition example_project :: Project where
  "example_project =
     \<lparr>name = ''com.example.native'', dir = ''/ws/proj'', project_out_dir = ''/ws/out'',
      multiarch = [''amd64''], deliverable = ''native'', native = shared_lib,
      project_cflags = [''-O2''], project_ldflags = [], project_ldlibs = [],
      toolchain_output = ''/tc'', asm_requires_cpp = False,
      buildDependencies = [\<lparr>dep_include_dirs = Value [''D1'', ''D2'', ''D1''], dep_libs = Absent\<rparr>],
      walk = [(''include'', [''a.h'']), (''src'', [''a.c'', ''b.cc'', ''.a.c.swp''])],
      include_listing = [''a.h''], suite_py = ''/ws/mx.ws/suite.py'', vc_dir = ''/ws''\<rparr>"

definition example_task :: NinjaBuildTask where
  "example_task = build_task example_env example_project ''amd64''"

definition fresh_world :: world where
  "fresh_world = \<lparr>files = [''/ws/out/amd64/build.ninja'' \<mapsto> ''fresh''], trace = []\<rparr>"

definition stale_world :: world where
  "stale_world = \<lparr>files = [''/ws/out/amd64/build.ninja'' \<mapsto> ''old''], trace = []\<rparr>"

definition empty_world :: world where
  "empty_world = \<lparr>files = Map.empty, trace = []\<rparr>"

definition rust_project :: Project where
  "rust_project = example_project\<lparr>walk := [(''include'', [''a.h'']), (''src'', [''a.c'', ''lib.rs''])]\<rparr>"

definition dirty_task :: NinjaBuildTask where
  "dirty_task = example_task\<lparr>reason := Some ''ninja explain: a.o is dirty''\<rparr>"

definition manifest_task :: NinjaBuildTask where
  "manifest_task = example_task\<lparr>reason := Some ''ninja explain: build.ninja is dirty''\<rparr>"

definition queried_world :: world where
  "queried_world = stale_world\<lparr>trace := [[''ninja'', ''-j'', ''1'', ''-n'', ''-d'', ''explain'']]\<rparr>"

definition current_world :: world where
  "current_world =
     \<lparr>files = [''/ws/out/amd64/build.ninja'' \<mapsto>
                 writer example_env (fst (manifest_statements example_env example_project ''/ws/out/amd64''))],
      trace = []\<rparr>"

definition compdb_env :: env where
  "compdb_env = example_env\<lparr>compdb_requested := True\<rparr>"

definition compdb_ok_env :: env where
  "compdb_ok_env = compdb_env\<lparr>run_process := (\<lambda>cmd cwd w. (0, [], []))\<rparr>"

definition cross_task :: NinjaBuildTask where
  "cross_task = build_task example_env example_project ''aarch64''"

definition multi_project :: Project where
  "multi_project = example_project\<lparr>multiarch := [''amd64'', ''aarch64'']\<rparr>"

definition plain_project :: Project where
  "plain_project = example_project\<lparr>multiarch := []\<rparr>"


section \<open>First occurrences, and the dictionary of sources\<close>

lemma first_seen_filter: "first_seen (filter P xs) = filter P (first_seen xs)"
proof (induction xs)
  case Nil
  show ?case by simp
next
  case (Cons x xs)
  show ?case
  proof (cases "P x")
    case True
    with Cons show ?thesis by (simp add: conj_commute)
  next
    case False
    have "filter P (filter (\<lambda>y. y \<noteq> x) (first_seen xs)) = filter P (first_seen xs)"
      using False by (auto intro: filter_cong)
    with False Cons show ?thesis by simp
  qed
qed

lemma set_first_seen: "set (first_seen xs) = set xs"
  by (induction xs) auto

lemma distinct_first_seen: "distinct (first_seen xs)"
  by (induction xs) (auto simp: set_first_seen)

lemma fromkeys_fold:
  "fold (\<lambda>x keys. if x \<in> set keys then keys else keys @ [x]) xs acc
     = acc @ first_seen (filter (\<lambda>y. y \<notin> set acc) xs)"
proof (induction xs arbitrary: acc)
  case Nil
  show ?case by simp
next
  case (Cons x xs)
  show ?case
  proof (cases "x \<in> set acc")
    case True
    then show ?thesis by (simp add: Cons)
  next
    case False
    have "filter (\<lambda>y. y \<noteq> x) (first_seen (filter (\<lambda>y. y \<notin> set acc) xs))
            = first_seen (filter (\<lambda>y. y \<notin> set (acc @ [x])) xs)"
      by (simp add: first_seen_filter [symmetric] conj_commute)
    with False show ?thesis by (simp add: Cons)
  qed
qed

lemma OrderedDict_fromkeys_first_seen: "OrderedDict_fromkeys xs = first_seen xs"
  by (simp add: OrderedDict_fromkeys_def fromkeys_fold)

lemma first_seen_same_prefix:
  "set xs = {h} \<Longrightarrow> first_seen (xs @ ys) = h # first_seen (filter (\<lambda>y. y \<noteq> h) ys)"
proof (induction xs)
  case Nil
  then show ?case by simp
next
  case (Cons x xs)
  then have x: "x = h" and sub: "set xs \<subseteq> {h}" by auto
  have "filter (\<lambda>y. y \<noteq> h) (xs @ ys) = filter (\<lambda>y. y \<noteq> h) ys"
    using sub by (auto simp: filter_empty_conv)
  then show ?case
    using x by (simp add: first_seen_filter [symmetric] del: filter_append)
qed

lemma dict_get_extend:
  "dict_get (dict_extend k vs d) k' = (if k' = k then dict_get d k @ vs else dict_get d k')"
  by (induction k vs d rule: dict_extend.induct) (auto simp: dict_get_def)

lemma keys_dict_extend: "fst ` set (dict_extend k vs d) = insert k (fst ` set d)"
  by (induction k vs d rule: dict_extend.induct) auto

lemma dict_get_grouping_fold:
  "dict_get (fold (\<lambda>f g. dict_extend (splitext_ext f) [join r f] g) fs d) k
     = dict_get d k @ map (join r) (filter (\<lambda>f. splitext_ext f = k) fs)"
  by (induction fs arbitrary: d) (auto simp: dict_get_extend)

lemma keys_grouping_fold:
  "fst ` set (fold (\<lambda>f g. dict_extend (splitext_ext f) [join r f] g) fs d)
     = fst ` set d \<union> splitext_ext ` set fs"
  by (induction fs arbitrary: d) (auto simp: keys_dict_extend)

lemma distinct_dict_extend:
  "distinct (map fst d) \<Longrightarrow> distinct (map fst (dict_extend k vs d))"
proof (induction k vs d rule: dict_extend.induct)
  case (1 k vs)
  show ?case by simp
next
  case (2 k vs k' ws d)
  then show ?case
    using keys_dict_extend [of k vs d] by (auto simp: image_iff)
qed

lemma distinct_grouping_fold:
  "distinct (map fst d) \<Longrightarrow>
   distinct (map fst (fold (\<lambda>f g. dict_extend (splitext_ext f) [join r f] g) fs d))"
  by (induction fs arbitrary: d) (auto simp: distinct_dict_extend)

lemma dict_get_Nil: "dict_get [] k = []"
  by (simp add: dict_get_def)

lemma dict_get_Cons: "dict_get ((k', vs) # d) k = (if k = k' then vs else dict_get d k)"
  by (simp add: dict_get_def)

lemma dict_get_absent: "k \<notin> fst ` set d \<Longrightarrow> dict_get d k = []"
  using map_of_eq_None_iff [of d k] by (simp add: dict_get_def)

lemma dict_get_merge_fold:
  "distinct (map fst g) \<Longrightarrow>
   dict_get (fold (\<lambda>(ext, paths) d'. dict_extend ext paths d') g d) k = dict_get d k @ dict_get g k"
proof (induction g arbitrary: d)
  case Nil
  show ?case by (simp add: dict_get_Nil)
next
  case (Cons a g)
  obtain ext paths where a: "a = (ext, paths)" by (cases a)
  from Cons.prems a have notin: "ext \<notin> fst ` set g" and dg: "distinct (map fst g)" by auto
  show ?case
    using Cons.IH [OF dg] a dict_get_absent [OF notin]
    by (simp add: dict_get_extend dict_get_Cons)
qed

lemma keys_merge_fold:
  "fst ` set (fold (\<lambda>(ext, paths) d'. dict_extend ext paths d') g d) = fst ` set d \<union> fst ` set g"
proof (induction g arbitrary: d)
  case Nil
  show ?case by simp
next
  case (Cons a g)
  show ?case
    by (cases a) (simp add: Cons.IH keys_dict_extend)
qed

lemma dict_get_grouping:
  "dict_get (grouping r fs) k = map (join r) (filter (\<lambda>f. splitext_ext f = k) fs)"
  by (simp add: grouping_def dict_get_grouping_fold dict_get_Nil)

lemma keys_grouping: "fst ` set (grouping r fs) = splitext_ext ` set fs"
  by (simp add: grouping_def keys_grouping_fold)

lemma distinct_grouping: "distinct (map fst (grouping r fs))"
  by (simp add: grouping_def distinct_grouping_fold)

lemma dict_get_source_fold:
  "dict_get (fold (\<lambda>(rel_root, fs) d. fold (\<lambda>(ext, paths) d'. dict_extend ext paths d')
                                          (grouping rel_root fs) d) ws d0) k
     = dict_get d0 k
       @ concat (map (\<lambda>(rel_root, fs). map (join rel_root) (filter (\<lambda>f. splitext_ext f = k) fs)) ws)"
proof (induction ws arbitrary: d0)
  case Nil
  show ?case by simp
next
  case (Cons a ws)
  show ?case
    by (cases a) (simp add: Cons.IH dict_get_merge_fold distinct_grouping dict_get_grouping)
qed

lemma keys_source_fold:
  "fst ` set (fold (\<lambda>(rel_root, fs) d. fold (\<lambda>(ext, paths) d'. dict_extend ext paths d')
                                           (grouping rel_root fs) d) ws d0)
     = fst ` set d0 \<union> (\<Union>(rel_root, fs) \<in> set ws. splitext_ext ` set fs)"
proof (induction ws arbitrary: d0)
  case Nil
  show ?case by simp
next
  case (Cons a ws)
  show ?case
    by (cases a) (simp add: Cons.IH keys_merge_fold keys_grouping Un_assoc)
qed

lemma dict_get_source_files: "dict_get (source_files p) ext = files_with_ext p ext"
  by (simp add: source_files_def files_with_ext_def dict_get_source_fold dict_get_Nil)

lemma keys_source_files: "fst ` set (source_files p) = extensions p"
  by (simp add: source_files_def extensions_def keys_source_fold)

section \<open>The statements of a manifest\<close>

lemma chain_attrs_Inr:
  "chain_attrs as = Inr ys \<Longrightarrow> ys = concat (map getattr_default as)"
  by (induction as arbitrary: ys rule: chain_attrs.induct)
     (auto simp: getattr_default_def split: sum.splits)

lemma has_rule_simps:
  "has_rule r (Build outs r' ins imp) = (r' = r)"
  "has_rule r (Comment c) = False"
  "has_rule r Newline = False"
  "has_rule r (Variable k v) = False"
  "has_rule r (Include i) = False"
  "has_rule r (Rule n c g) = False"
  by (simp_all add: has_rule_def)

lemma is_includes_simps:
  "is_includes (Build outs r' ins imp) = False"
  "is_includes (Comment c) = False"
  "is_includes Newline = False"
  "is_includes (Variable k v) = (k = ''includes'')"
  "is_includes (Include i) = False"
  "is_includes (Rule n c g) = False"
  by (simp_all add: is_includes_def)

lemma filter_head_includes: "filter is_includes (manifest_head e p d) = []"
  by (simp add: manifest_head_def gen_generate_def gen_variables_def is_includes_simps
        filter_map comp_def)

lemma filter_sources_includes:
  "filter is_includes (manifest_sources e p dirs)
     = [Variable ''includes'' (Lst (map (\<lambda>d. ''-I'' @ gen_quote p (gen_resolve d))
          (OrderedDict_fromkeys (map dirname (h_files p) @ dirs))))]"
  by (simp add: manifest_sources_def gen_include_dirs_def gen_variables_def gen_cc_def
        gen_cxx_def gen_asm_def is_includes_simps filter_concat filter_map comp_def)

lemma manifest_statements_success:
  assumes "snd (manifest_statements e p d) = None"
  shows "\<exists>dirs tail. chain_attrs (map dep_include_dirs (buildDependencies p)) = Inr dirs
           \<and> fst (manifest_statements e p d)
               = manifest_head e p d @ manifest_sources e p dirs
                 @ [Build [project_target e p] (fst tail) (snd tail) []]
           \<and> fst tail \<in> {''ar'', ''link'', ''linkxx''}"
  using assms
  by (auto simp: manifest_statements_def Let_def split: sum.splits if_splits)

lemma filter_rule_head:
  "r \<noteq> ''phony'' \<Longrightarrow> r \<noteq> ''dry_run'' \<Longrightarrow> filter (has_rule r) (manifest_head e p d) = []"
  by (simp add: manifest_head_def gen_generate_def gen_variables_def has_rule_simps
        filter_map comp_def)

lemma filter_rule_sources:
  "filter (has_rule r) (manifest_sources e p dirs)
     = filter (has_rule r) (concat (map (gen_cc e) (c_files p)))
       @ filter (has_rule r) (concat (map (gen_cxx e) (cxx_files p)))
       @ filter (has_rule r) (concat (map (gen_asm e p) (asm_sources p)))"
  by (simp add: manifest_sources_def gen_include_dirs_def gen_variables_def has_rule_simps)

lemma filter_rule_cc:
  "filter (has_rule r) (concat (map (gen_cc e) fs))
     = (if r = ''cc'' then map (\<lambda>f. Build [gen_output e f None] ''cc'' [gen_resolve f] []) fs else [])"
  by (induction fs) (auto simp: gen_cc_def has_rule_simps)

lemma filter_rule_cxx:
  "filter (has_rule r) (concat (map (gen_cxx e) fs))
     = (if r = ''cxx'' then map (\<lambda>f. Build [gen_output e f None] ''cxx'' [gen_resolve f] []) fs else [])"
  by (induction fs) (auto simp: gen_cxx_def has_rule_simps)

lemma filter_rule_asm:
  "filter (has_rule r) (concat (map (gen_asm e p) fs))
     = (if r = ''asm''
        then map (\<lambda>f. Build [gen_output e f None] ''asm''
                    [if asm_requires_cpp p then gen_output e f (Some ''.asm'') else gen_resolve f] []) fs
        else if r = ''cpp'' \<and> asm_requires_cpp p
        then map (\<lambda>f. Build [gen_output e f (Some ''.asm'')] ''cpp'' [gen_resolve f] []) fs
        else [])"
  by (induction fs) (auto simp: gen_asm_def has_rule_simps)

lemma unsupported_iff:
  "unsupported_source_files p = extensions p - supported_extensions"
  by (simp add: unsupported_source_files_def keys_source_files)

lemma generate_manifest_unsupported:
  "\<not> extensions p \<subseteq> supported_extensions \<Longrightarrow>
   generate_manifest e p d f w = (Inl (Abort_unsupported (extensions p - supported_extensions)), w)"
  by (auto simp: generate_manifest_def unsupported_iff)

lemma generate_manifest_supported:
  "extensions p \<subseteq> supported_extensions \<Longrightarrow>
   generate_manifest e p d f w
     = ((case snd (manifest_statements e p d) of None \<Rightarrow> Inr () | Some x \<Rightarrow> Inl x),
        write_file (join d f) (writer e (fst (manifest_statements e p d))) w)"
  by (auto simp: generate_manifest_def unsupported_iff split: prod.splits)

lemma chain_attrs_Inl: "chain_attrs as = Inl x \<Longrightarrow> x = TypeError"
  by (induction as rule: chain_attrs.induct) (auto split: sum.splits)

lemma manifest_statements_no_abort:
  "snd (manifest_statements e p d) \<noteq> Some (Abort_unsupported x)"
  by (auto simp: manifest_statements_def Let_def split: sum.splits if_splits
           dest: chain_attrs_Inl)


section \<open>The executor and the regeneration\<close>

lemma Ninja_run_world: "snd (Ninja_run e n args w) = w\<lparr>trace := trace w @ [Ninja_cmd e n args]\<rparr>"
  by (simp add: Ninja_run_def Let_def split: prod.splits)

lemma Ninja_run_result:
  "fst (Ninja_run e n args w)
     = (let r = run_process e (Ninja_cmd e n args) (build_dir n) w
        in if fst r \<noteq> 0 then Inl (abort_of e r) else Inr (snd r))"
  by (simp add: Ninja_run_def abort_of_def Let_def split: prod.splits)

lemma Ninja_clean_eq:
  "Ninja_clean e (ninja t) w
     = (if fst (run_process e (clean_cmd e t) (build_dir (ninja t)) w) \<noteq> 0
        then Inl (abort_of e (run_process e (clean_cmd e t) (build_dir (ninja t)) w))
        else Inr (),
        w\<lparr>trace := trace w @ [clean_cmd e t]\<rparr>)"
  using Ninja_run_world [of e "ninja t" "[''-t'', ''clean''] @ targets (ninja t)" w]
        Ninja_run_result [of e "ninja t" "[''-t'', ''clean''] @ targets (ninja t)" w]
  by (cases "Ninja_run e (ninja t) ([''-t'', ''clean''] @ targets (ninja t)) w")
     (auto simp: Ninja_clean_def clean_cmd_def Let_def split: sum.splits)

lemma Ninja_compdb_eq:
  "Ninja_compdb e (ninja t) w
     = (if fst (run_process e (compdb_cmd e t) (build_dir (ninja t)) w) \<noteq> 0
        then Inl (abort_of e (run_process e (compdb_cmd e t) (build_dir (ninja t)) w))
        else Inr (),
        w\<lparr>trace := trace w @ [compdb_cmd e t]\<rparr>)"
  using Ninja_run_world [of e "ninja t" "[''-t'', ''compdb''] @ targets (ninja t)" w]
        Ninja_run_result [of e "ninja t" "[''-t'', ''compdb''] @ targets (ninja t)" w]
  by (cases "Ninja_run e (ninja t) ([''-t'', ''compdb''] @ targets (ninja t)) w")
     (auto simp: Ninja_compdb_def compdb_cmd_def Let_def split: sum.splits)

lemma Ninja_build_eq:
  "Ninja_build e (ninja t) w
     = (if fst (run_process e (build_cmd e t) (build_dir (ninja t)) w) \<noteq> 0
        then Inl (abort_of e (run_process e (build_cmd e t) (build_dir (ninja t)) w))
        else Inr (),
        w\<lparr>trace := trace w @ [build_cmd e t]\<rparr>)"
  using Ninja_run_world [of e "ninja t" "targets (ninja t)" w]
        Ninja_run_result [of e "ninja t" "targets (ninja t)" w]
  by (cases "Ninja_run e (ninja t) (targets (ninja t)) w")
     (auto simp: Ninja_build_def build_cmd_def Let_def split: sum.splits)

lemma regenerate_body_ok:
  assumes sup: "extensions p \<subseteq> supported_extensions"
    and ok: "snd (manifest_statements e p (dirname (mkstemp e (manifest t) w))) = None"
    and rt: "join (dirname (mkstemp e (manifest t) w)) (basename (mkstemp e (manifest t) w))
               = mkstemp e (manifest t) w"
    and ne: "mkstemp e (manifest t) w \<noteq> manifest t"
  shows "regenerate_body e p t (mkstemp e (manifest t) w)
           (SafeFileCreation_enter (mkstemp e (manifest t) w) w)
         = (if manifest_changed e p t w then Ninja_clean e (ninja t) (world_with_tmp e p t w)
            else (Inr (), world_with_tmp e p t w))"
proof -
  let ?tmp = "mkstemp e (manifest t) w"
  have w1: "write_file ?tmp (new_manifest e p t w) (SafeFileCreation_enter ?tmp w)
              = world_with_tmp e p t w"
    by (simp add: world_with_tmp_def SafeFileCreation_enter_def write_file_def)
  have g: "generate_manifest e p (dirname ?tmp) (basename ?tmp) (SafeFileCreation_enter ?tmp w)
             = (Inr (), world_with_tmp e p t w)"
    using w1 by (simp add: generate_manifest_supported [OF sup] ok rt new_manifest_def)
  have c: "(exists (world_with_tmp e p t w) (manifest t)
             \<and> files (world_with_tmp e p t w) (manifest t) \<noteq> files (world_with_tmp e p t w) ?tmp)
           = manifest_changed e p t w"
    using ne by (auto simp: manifest_changed_def world_with_tmp_def write_file_def exists_def)
  show ?thesis
    using c by (simp add: regenerate_body_def g)
qed

lemma regenerate_ok:
  assumes sup: "extensions p \<subseteq> supported_extensions"
    and ok: "snd (manifest_statements e p (dirname (mkstemp e (manifest t) w))) = None"
    and rt: "join (dirname (mkstemp e (manifest t) w)) (basename (mkstemp e (manifest t) w))
               = mkstemp e (manifest t) w"
    and ne: "mkstemp e (manifest t) w \<noteq> manifest t"
  shows "\<not> manifest_changed e p t w \<Longrightarrow>
           regenerate e p t w
             = (Inr (), w\<lparr>files := (files w)(mkstemp e (manifest t) w := None,
                                              manifest t \<mapsto> new_manifest e p t w)\<rparr>)"
    and "manifest_changed e p t w \<Longrightarrow>
         fst (run_process e (clean_cmd e t) (build_dir (ninja t)) (world_with_tmp e p t w)) = 0 \<Longrightarrow>
           regenerate e p t w
             = (Inr (), w\<lparr>files := (files w)(mkstemp e (manifest t) w := None,
                                              manifest t \<mapsto> new_manifest e p t w),
                           trace := trace w @ [clean_cmd e t]\<rparr>)"
    and "manifest_changed e p t w \<Longrightarrow>
         fst (run_process e (clean_cmd e t) (build_dir (ninja t)) (world_with_tmp e p t w)) \<noteq> 0 \<Longrightarrow>
           regenerate e p t w
             = (Inl (abort_of e (run_process e (clean_cmd e t) (build_dir (ninja t))
                                   (world_with_tmp e p t w))),
                w\<lparr>files := (files w)(mkstemp e (manifest t) w := None),
                  trace := trace w @ [clean_cmd e t]\<rparr>)"
  using ne
  by (simp_all add: regenerate_def Let_def regenerate_body_ok [OF sup ok rt ne] Ninja_clean_eq
        SafeFileCreation_exit_def world_with_tmp_def write_file_def exists_def fun_upd_twist)

lemma export_and_build_ok:
  "fst (export_and_build e t w) = Inr () \<Longrightarrow>
   snd (export_and_build e t w)
     = w\<lparr>trace := trace w @ (if compdb_requested e then [compdb_cmd e t] else []) @ [build_cmd e t]\<rparr>"
  by (auto simp: export_and_build_def Ninja_compdb_eq Ninja_build_eq split: if_splits)

section \<open>Archive paths\<close>

lemma collect_all_Inr: "collect (map Inr xs) = (xs, None)"
  by (induction xs) auto

lemma isabs_include: "\<not> isabs header \<Longrightarrow> \<not> isabs (join ''include'' header)"
  by (simp add: isabs_def join_def suffix_to_prefix)

lemma archivable_results_ok:
  assumes "\<not> isabs (project_target e p)" and "\<forall>h \<in> set (include_listing p). \<not> isabs h"
  shows "arch_results e p use_relpath single arch
           = map Inr (if is_native e (Toolchain_for arch) \<or> \<not> single
                      then deliverable_pair e p use_relpath arch
                           # (if single then []
                              else map (header_pair e p use_relpath arch) (include_listing p))
                      else [])"
  using assms
  by (auto simp: arch_results_def archivable_results_def result_def deliverable_pair_def
        header_pair_def isabs_include)

lemma concat_map_Inr: "concat (map (\<lambda>x. map Inr (f x)) xs) = map Inr (concat (map f xs))"
  by (induction xs) auto

lemma not_isabs_basename: "\<not> isabs (basename x)"
proof -
  have "\<forall>c \<in> set (takeWhile (\<lambda>c. c \<noteq> CHR ''/'') (rev x)). c \<noteq> CHR ''/''"
    by (auto dest: set_takeWhileD)
  then have "CHR ''/'' \<notin> set (basename x)"
    by (auto simp: basename_def)
  then show ?thesis
    by (cases "basename x") (auto simp: isabs_def)
qed

lemma target_no_trailing_slash:
  "CHR ''/'' \<notin> set arch \<Longrightarrow> \<not> suffix ''/'' (os @ ''-'' @ arch)"
  by (cases arch rule: rev_cases) (auto simp: suffix_to_prefix)

lemma join_arch_prefix:
  "CHR ''/'' \<notin> set arch \<Longrightarrow> \<not> isabs path \<Longrightarrow>
   join (os @ CHR ''-'' # arch) path = os @ CHR ''-'' # arch @ CHR ''/'' # path"
  using target_no_trailing_slash [of arch os]
  by (simp add: join_def isabs_def)

section \<open>Composed tasks and newest outputs\<close>








section \<open>Evaluation of the example\<close>

lemma example_task_simps:
  "manifest example_task = ''/ws/out/amd64/build.ninja''"
  "target_arch example_task = ''amd64''"
  "reason example_task = None"
  "ninja example_task = \<lparr>binary = ''ninja'', build_dir = ''/ws/out/amd64'', parallelism = ''1'', targets = []\<rparr>"
  by (simp_all add: example_task_def build_task_def example_env_def example_project_def join_def default_manifest_def Let_def suffix_to_prefix)

lemma example_run_simps:
  "run_process example_env cmd cwd w =
     (if ''-n'' \<in> set cmd then
           (if files w (join cwd ''build.ninja'') = Some ''old''
            then (0, [], [''ninja explain: a.o is dirty''])
            else (0, [''ninja: no work to do.''], []))
         else if ''compdb'' \<in> set cmd then (1, [], [''compdb failed''])
         else (0, [], []))"
  "opt_verbose example_env = False"
  "opt_very_verbose example_env = False"
  "MX_VERBOSE example_env = None"
  "get_arch example_env = ''amd64''"
  "get_os example_env = ''linux''"
  by (simp_all add: example_env_def)

lemma example_exists:
  "exists fresh_world (manifest example_task)"
  "exists stale_world (manifest example_task)"
  "\<not> exists empty_world (manifest example_task)"
  by (simp_all add: exists_def example_task_simps fresh_world_def stale_world_def empty_world_def)

lemma example_needsBuild_fresh:
  "NinjaBuildTask_needsBuild example_env example_task (False, None) fresh_world
     = (Inr (False, Some ''ninja: no work to do.''),
        example_task\<lparr>reason := Some ''ninja: no work to do.''\<rparr>,
        fresh_world\<lparr>trace := [[''ninja'', ''-j'', ''1'', ''-n'', ''-d'', ''explain'']]\<rparr>)"
  by (simp add: NinjaBuildTask_needsBuild_def Ninja_needs_build_def Ninja_run_def Ninja_cmd_def
        example_task_simps example_run_simps exists_def fresh_world_def truthy_def join_def
        suffix_to_prefix Let_def)

lemma example_needsBuild_stale:
  "NinjaBuildTask_needsBuild example_env example_task (False, None) stale_world
     = (Inr (True, Some ''ninja explain: a.o is dirty''),
        example_task\<lparr>reason := Some ''ninja explain: a.o is dirty''\<rparr>,
        stale_world\<lparr>trace := [[''ninja'', ''-j'', ''1'', ''-n'', ''-d'', ''explain'']]\<rparr>)"
  by (simp add: NinjaBuildTask_needsBuild_def Ninja_needs_build_def Ninja_run_def Ninja_cmd_def
        example_task_simps example_run_simps exists_def stale_world_def truthy_def join_def
        suffix_to_prefix Let_def)

lemma example_project_simps:
  "walk example_project = [(''include'', [''a.h'']), (''src'', [''a.c'', ''b.cc'', ''.a.c.swp''])]"
  "buildDependencies example_project = [\<lparr>dep_include_dirs = Value [''D1'', ''D2'', ''D1''], dep_libs = Absent\<rparr>]"
  "native example_project = shared_lib"
  "multiarch example_project = [''amd64'']"
  "include_listing example_project = [''a.h'']"
  "dir example_project = ''/ws/proj''"
  "project_out_dir example_project = ''/ws/out''"
  "deliverable example_project = ''native''"
  by (simp_all add: example_project_def)

lemma example_splitext:
  "splitext_ext ''a.h'' = ''.h''"
  "splitext_ext ''a.c'' = ''.c''"
  "splitext_ext ''b.cc'' = ''.cc''"
  "splitext_ext ''.a.c.swp'' = ''.swp''"
  by (simp_all add: splitext_ext_def basename_def Let_def)

lemma example_extensions: "extensions example_project = {''.h'', ''.c'', ''.cc'', ''.swp''}"
  by (auto simp: extensions_def example_project_simps example_splitext)

lemma example_supported: "unsupported_source_files example_project = {}"
  by (simp add: unsupported_source_files_def keys_source_files example_extensions
        supported_extensions_def)

lemma example_h_files: "files_with_ext example_project ''.h'' = [''include/a.h'']"
  by (simp add: files_with_ext_def example_project_simps example_splitext join_def suffix_to_prefix)

lemma example_dependency_include_dirs:
  "dependency_include_dirs example_project = [''D1'', ''D2'', ''D1'']"
  by (simp add: dependency_include_dirs_def example_project_simps getattr_default_def)

lemma example_statements_complete:
  "snd (manifest_statements example_env example_project d) = None"
  by (simp add: manifest_statements_def example_project_simps Let_def)

lemma example_generate_manifest:
  "fst (generate_manifest example_env example_project d f w) = Inr ()"
  using example_statements_complete [of d]
  by (auto simp: generate_manifest_def example_supported split: prod.splits)

lemma rust_extensions: "extensions rust_project = {''.h'', ''.c'', ''.rs''}"
proof -
  have "splitext_ext ''lib.rs'' = ''.rs''"
    by (simp add: splitext_ext_def basename_def Let_def)
  then show ?thesis
    by (auto simp: extensions_def rust_project_def example_project_def example_splitext)
qed

lemma rust_unsupported:
  "\<not> extensions rust_project \<subseteq> supported_extensions"
  "extensions rust_project - supported_extensions = {''.rs''}"
  by (auto simp: rust_extensions supported_extensions_def)

lemma example_sources:
  "files_with_ext example_project ''.c'' = [''src/a.c'']"
  "files_with_ext example_project ''.cc'' = [''src/b.cc'']"
  "files_with_ext example_project ''.S'' = []"
  by (simp_all add: files_with_ext_def example_project_simps example_splitext join_def suffix_to_prefix)

lemma example_extensions_supported: "extensions example_project \<subseteq> supported_extensions"
  by (simp add: example_extensions supported_extensions_def)

lemma example_mkstemp:
  "mkstemp example_env ''/ws/out/amd64/build.ninja'' w = ''/ws/out/amd64/tmp0build.ninja''"
  by (simp add: example_env_def dirname_def basename_def join_def
        suffix_to_prefix Let_def)

lemma example_world_simps:
  "trace empty_world = []" "files empty_world p = None"
  "trace stale_world = []" "trace fresh_world = []"
  "files stale_world ''/ws/out/amd64/build.ninja'' = Some ''old''"
  "files fresh_world ''/ws/out/amd64/build.ninja'' = Some ''fresh''"
  by (simp_all add: empty_world_def stale_world_def fresh_world_def)


lemma example_tasks_simps:
  "manifest dirty_task = ''/ws/out/amd64/build.ninja''"
  "manifest manifest_task = ''/ws/out/amd64/build.ninja''"
  "reason dirty_task = Some ''ninja explain: a.o is dirty''"
  "reason manifest_task = Some ''ninja explain: build.ninja is dirty''"
  "ninja dirty_task = ninja example_task"
  "ninja manifest_task = ninja example_task"
  "target_arch dirty_task = ''amd64''"
  by (simp_all add: dirty_task_def manifest_task_def example_task_simps)

lemma example_cmds:
  "build_cmd example_env dirty_task = [''ninja'', ''-j'', ''1'']"
  "build_cmd example_env manifest_task = [''ninja'', ''-j'', ''1'']"
  "clean_cmd example_env manifest_task = [''ninja'', ''-j'', ''1'', ''-t'', ''clean'']"
  "compdb_cmd example_env dirty_task = [''ninja'', ''-j'', ''1'', ''-t'', ''compdb'']"
  by (simp_all add: build_cmd_def clean_cmd_def compdb_cmd_def Ninja_cmd_def example_tasks_simps
        example_task_simps example_run_simps truthy_def)

lemma example_not_regenerates: "\<not> regenerates dirty_task queried_world"
  by (simp add: regenerates_def example_tasks_simps exists_def queried_world_def
        example_world_simps basename_def sublist_code)

lemma example_regenerates_manifest: "regenerates manifest_task w"
  by (simp add: regenerates_def example_tasks_simps basename_def sublist_code)

lemma example_tmp_simps:
  "dirname ''/ws/out/amd64/tmp0build.ninja'' = ''/ws/out/amd64''"
  "basename ''/ws/out/amd64/tmp0build.ninja'' = ''tmp0build.ninja''"
  "join ''/ws/out/amd64'' ''tmp0build.ninja'' = ''/ws/out/amd64/tmp0build.ninja''"
  by (simp_all add: dirname_def basename_def join_def suffix_to_prefix Let_def)

lemma example_new_manifest:
  "new_manifest example_env example_project manifest_task w
     = writer example_env (fst (manifest_statements example_env example_project ''/ws/out/amd64''))"
  by (simp add: new_manifest_def example_tasks_simps example_mkstemp example_tmp_simps)

lemma example_manifest_starts:
  "hd (writer example_env (fst (manifest_statements example_env example_project d))) = CHR ''#''"
proof -
  have "writer example_env (Comment c # ss) = ''# '' @ c @ ''\<newline>'' @ writer example_env ss" for c ss
    by (simp add: example_env_def)
  moreover have "\<exists>ss. fst (manifest_statements example_env example_project d)
                   = Comment ''Generated by mx. Do not edit.'' # ss"
    by (simp add: manifest_statements_def manifest_head_def gen_generate_def Let_def
          example_project_simps split: sum.splits)
  ultimately show ?thesis by auto
qed

lemma example_manifest_not_old:
  "writer example_env (fst (manifest_statements example_env example_project d)) \<noteq> ''old''"
  using example_manifest_starts [of d] by auto

lemma example_changed:
  "manifest_changed example_env example_project manifest_task stale_world"
  "\<not> manifest_changed example_env example_project manifest_task current_world"
  "\<not> manifest_changed example_env example_project manifest_task empty_world"
  using example_manifest_not_old [of "''/ws/out/amd64''"]
  by (simp_all add: manifest_changed_def example_new_manifest exists_def example_tasks_simps
        example_world_simps current_world_def)

lemma example_compdb_not_requested: "compdb_requested example_env = False"
  by (simp add: example_env_def)

lemma example_export_and_build:
  assumes "ninja t = ninja example_task"
  shows "export_and_build example_env t w
           = (Inr (), w\<lparr>trace := trace w @ [[''ninja'', ''-j'', ''1'']]\<rparr>)"
proof -
  have c: "build_cmd example_env t = [''ninja'', ''-j'', ''1'']"
    using assms
    by (simp add: build_cmd_def Ninja_cmd_def example_task_simps example_run_simps truthy_def)
  show ?thesis
    by (simp add: export_and_build_def example_compdb_not_requested Ninja_build_eq c
          example_run_simps)
qed

lemma example_clean_ok:
  "fst (run_process example_env (clean_cmd example_env manifest_task)
          (build_dir (ninja manifest_task)) w) = 0"
  by (simp add: example_cmds example_run_simps)

lemma example_hyps:
  "snd (manifest_statements example_env example_project
          (dirname (mkstemp example_env (manifest manifest_task) w))) = None"
  "join (dirname (mkstemp example_env (manifest manifest_task) w))
        (basename (mkstemp example_env (manifest manifest_task) w))
     = mkstemp example_env (manifest manifest_task) w"
  "mkstemp example_env (manifest manifest_task) w \<noteq> manifest manifest_task"
  "snd (manifest_statements example_env example_project
          (dirname (mkstemp example_env (manifest dirty_task) w))) = None"
  "join (dirname (mkstemp example_env (manifest dirty_task) w))
        (basename (mkstemp example_env (manifest dirty_task) w))
     = mkstemp example_env (manifest dirty_task) w"
  "mkstemp example_env (manifest dirty_task) w \<noteq> manifest dirty_task"
  by (simp_all add: example_statements_complete example_tasks_simps example_mkstemp example_tmp_simps)

lemma compdb_env_simps:
  "compdb_requested compdb_env = True"
  "opt_verbose compdb_env = False"
  "opt_very_verbose compdb_env = False"
  "MX_VERBOSE compdb_env = None"
  "compdb_requested compdb_ok_env = True"
  "run_process compdb_ok_env cmd cwd w = (0, [], [])"
  by (simp_all add: compdb_env_def compdb_ok_env_def example_env_def)

lemma compdb_env_cmds:
  "compdb_cmd compdb_env dirty_task = [''ninja'', ''-j'', ''1'', ''-t'', ''compdb'']"
  "build_cmd compdb_env dirty_task = [''ninja'', ''-j'', ''1'']"
  "compdb_cmd compdb_ok_env dirty_task = compdb_cmd compdb_env dirty_task"
  by (simp_all add: compdb_cmd_def build_cmd_def Ninja_cmd_def compdb_env_def compdb_ok_env_def
        example_tasks_simps example_task_simps example_run_simps truthy_def)

lemma compdb_env_fails:
  "run_process compdb_env [''ninja'', ''-j'', ''1'', ''-t'', ''compdb''] cwd w
     = (1, [], [''compdb failed''])"
  by (simp add: compdb_env_def example_run_simps)

lemma cross_task_simps:
  "target_arch cross_task = ''aarch64''"
  by (simp add: cross_task_def build_task_def Let_def)

lemma example_super_buildForbidden: "super_buildForbidden example_env arch = False"
  by (simp add: example_env_def)

lemma example_target:
  "project_target example_env example_project = ''libnative.so''"
  "project_target example_env multi_project = ''libnative.so''"
  "project_target example_env plain_project = ''libnative.so''"
  by (simp_all add: project_target_def example_env_def example_project_def multi_project_def
        plain_project_def)

lemma example_archs:
  "archs example_env example_project = [''amd64'']"
  "archs example_env multi_project = [''amd64'', ''aarch64'']"
  "archs example_env plain_project = [''amd64'']"
  by (simp_all add: archs_def use_multiarch_def example_env_def example_project_def
        multi_project_def plain_project_def)

lemma example_variants_simps:
  "include_listing multi_project = [''a.h'']" "include_listing plain_project = [''a.h'']"
  "multiarch multi_project = [''amd64'', ''aarch64'']" "multiarch plain_project = []"
  "dir multi_project = ''/ws/proj''" "dir plain_project = ''/ws/proj''"
  "project_out_dir multi_project = ''/ws/out''" "project_out_dir plain_project = ''/ws/out''"
  by (simp_all add: multi_project_def plain_project_def example_project_def)

lemma example_pairs:
  "deliverable_pair example_env example_project True ''amd64''
     = (''/ws/out/amd64/libnative.so'', ''linux-amd64/libnative.so'')"
  "header_pair example_env example_project True ''amd64'' ''a.h''
     = (''/ws/proj/include/a.h'', ''linux-amd64/include/a.h'')"
  "deliverable_pair example_env multi_project True ''amd64''
     = (''/ws/out/amd64/libnative.so'', ''linux-amd64/libnative.so'')"
  "deliverable_pair example_env plain_project False ''amd64''
     = (''/ws/out/amd64/libnative.so'', ''libnative.so'')"
  "header_pair example_env plain_project False ''amd64'' ''a.h''
     = (''/ws/proj/include/a.h'', ''a.h'')"
  by (simp_all add: deliverable_pair_def header_pair_def target_arch_path_def target_def
        Toolchain_for_def example_target example_project_simps example_variants_simps
        example_run_simps join_def basename_def suffix_to_prefix)









section \<open>The staleness protocol\<close>

text \<open>
  C1. \<open>needsBuild\<close> runs its checks in a fixed order. When the generic check of the
  superclass reports a needed build, that answer and its reason are the result, and
  nothing is run. Otherwise, when no manifest file exists, the result is a needed
  build with the reason \<open>no build manifest\<close>, and nothing is run. Otherwise the result
  is that of the executor's dry run: a needed build with the first explanation line
  when the dry run writes explanations, no build when it writes none and reports no
  work. A build is reported as not needed only when all three checks pass.
\<close>

theorem needsBuild_order:
  "(fst generic \<longrightarrow>
      NinjaBuildTask_needsBuild e t generic w
        = (Inr (True, snd generic), t\<lparr>reason := snd generic\<rparr>, w))
   \<and> (\<not> fst generic \<and> \<not> exists w (manifest t) \<longrightarrow>
      NinjaBuildTask_needsBuild e t generic w
        = (Inr (True, Some ''no build manifest''), t\<lparr>reason := Some ''no build manifest''\<rparr>, w))
   \<and> (\<not> fst generic \<and> exists w (manifest t) \<longrightarrow>
      (fst (NinjaBuildTask_needsBuild e t generic w), snd (snd (NinjaBuildTask_needsBuild e t generic w)))
        = Ninja_needs_build e (ninja t) w
      \<and> (\<forall>out details. run_process e (Ninja_cmd e (ninja t) ([''-n'', ''-d'', ''explain''] @ targets (ninja t)))
                           (build_dir (ninja t)) w = (0, out, details) \<longrightarrow>
           (\<forall>l ls. details \<noteq> [] \<and> filter (prefix ''ninja explain:'') details = l # ls \<longrightarrow>
               fst (NinjaBuildTask_needsBuild e t generic w) = Inr (True, Some l))
           \<and> (details = [] \<and> out = [''ninja: no work to do.''] \<longrightarrow>
               fst (NinjaBuildTask_needsBuild e t generic w) = Inr (False, Some ''ninja: no work to do.''))))
   \<and> (\<forall>r. fst (NinjaBuildTask_needsBuild e t generic w) = Inr (False, r) \<longrightarrow>
        \<not> fst generic \<and> exists w (manifest t)
        \<and> fst (Ninja_needs_build e (ninja t) w) = Inr (False, r))"
  by (cases generic)
     (auto simp: NinjaBuildTask_needsBuild_def Ninja_needs_build_def Ninja_run_def Let_def
           split: prod.splits sum.splits if_splits list.splits)

theorem needsBuild_order_witness:
  "fst (True, Some ''newer input'')
   \<and> NinjaBuildTask_needsBuild example_env example_task (True, Some ''newer input'') fresh_world
       = (Inr (True, Some ''newer input''), example_task\<lparr>reason := Some ''newer input''\<rparr>, fresh_world)
   \<and> \<not> fst (False, None :: string option) \<and> \<not> exists empty_world (manifest example_task)
   \<and> NinjaBuildTask_needsBuild example_env example_task (False, None) empty_world
       = (Inr (True, Some ''no build manifest''),
          example_task\<lparr>reason := Some ''no build manifest''\<rparr>, empty_world)
   \<and> exists fresh_world (manifest example_task)
   \<and> fst (NinjaBuildTask_needsBuild example_env example_task (False, None) fresh_world)
       = Inr (False, Some ''ninja: no work to do.'')
   \<and> fst (Ninja_needs_build example_env (ninja example_task) fresh_world)
       = Inr (False, Some ''ninja: no work to do.'')
   \<and> exists stale_world (manifest example_task)
   \<and> fst (NinjaBuildTask_needsBuild example_env example_task (False, None) stale_world)
       = Inr (True, Some ''ninja explain: a.o is dirty'')"
  using needsBuild_order [where generic = "(True, Some ''newer input'')" and e = example_env
          and t = example_task and w = fresh_world]
        needsBuild_order [where generic = "(False, None)" and e = example_env
          and t = example_task and w = empty_world]
        needsBuild_order [where generic = "(False, None)" and e = example_env
          and t = example_task and w = fresh_world]
        needsBuild_order [where generic = "(False, None)" and e = example_env
          and t = example_task and w = stale_world]
  by (simp add: example_needsBuild_fresh example_needsBuild_stale example_exists)

section \<open>The manifest\<close>

text \<open>
  C4. In a generated manifest the only \<open>includes\<close> variable lists, as \<open>-I\<close> flags, the
  directories of the project's own header files in discovery order followed by the
  include directories of the build dependencies in dependency order, each directory
  kept at its first occurrence only. With own headers in one directory \<open>H\<close> and
  dependency directories \<open>[D1, D2, D1]\<close> the list is exactly \<open>[H, D1, D2]\<close>.
\<close>

theorem include_dirs_order:
  assumes "generate_manifest e p output_dir filename w = (Inr u, w')"
  shows "files w' (join output_dir filename)
           = Some (writer e (fst (manifest_statements e p output_dir)))
       \<and> filter is_includes (fst (manifest_statements e p output_dir))
           = [Variable ''includes'' (Lst (map (\<lambda>d. ''-I'' @ gen_quote p (gen_resolve d))
                (first_seen (map dirname (files_with_ext p ''.h'') @ dependency_include_dirs p))))]
       \<and> distinct (first_seen (map dirname (files_with_ext p ''.h'') @ dependency_include_dirs p))
       \<and> set (first_seen (map dirname (files_with_ext p ''.h'') @ dependency_include_dirs p))
           = dirname ` set (files_with_ext p ''.h'') \<union> set (dependency_include_dirs p)
       \<and> (\<forall>H D1 D2. dirname ` set (files_with_ext p ''.h'') = {H}
              \<and> dependency_include_dirs p = [D1, D2, D1] \<and> distinct [H, D1, D2] \<longrightarrow>
            first_seen (map dirname (files_with_ext p ''.h'') @ dependency_include_dirs p)
              = [H, D1, D2])"
proof -
  from assms have ok: "snd (manifest_statements e p output_dir) = None"
    and w': "w' = write_file (join output_dir filename)
                    (writer e (fst (manifest_statements e p output_dir))) w"
    by (auto simp: generate_manifest_def split: if_splits prod.splits option.splits)
  from manifest_statements_success [OF ok] obtain dirs tail where
    dirs: "chain_attrs (map dep_include_dirs (buildDependencies p)) = Inr dirs"
    and ss: "fst (manifest_statements e p output_dir)
               = manifest_head e p output_dir @ manifest_sources e p dirs
                 @ [Build [project_target e p] (fst tail) (snd tail) []]"
    by blast
  from chain_attrs_Inr [OF dirs] have dirs_eq: "dirs = dependency_include_dirs p"
    by (simp add: dependency_include_dirs_def comp_def)
  have 1: "files w' (join output_dir filename)
             = Some (writer e (fst (manifest_statements e p output_dir)))"
    by (simp add: w' write_file_def)
  have 2: "filter is_includes (fst (manifest_statements e p output_dir))
             = [Variable ''includes'' (Lst (map (\<lambda>d. ''-I'' @ gen_quote p (gen_resolve d))
                  (first_seen (map dirname (files_with_ext p ''.h'') @ dependency_include_dirs p))))]"
    by (simp add: ss filter_head_includes filter_sources_includes is_includes_simps
          OrderedDict_fromkeys_first_seen h_files_def dict_get_source_files dirs_eq)
  have 3: "\<forall>H D1 D2. dirname ` set (files_with_ext p ''.h'') = {H}
              \<and> dependency_include_dirs p = [D1, D2, D1] \<and> distinct [H, D1, D2] \<longrightarrow>
            first_seen (map dirname (files_with_ext p ''.h'') @ dependency_include_dirs p)
              = [H, D1, D2]"
  proof (intro allI impI, elim conjE)
    fix H D1 D2
    assume h: "dirname ` set (files_with_ext p ''.h'') = {H}"
      and d: "dependency_include_dirs p = [D1, D2, D1]" and dist: "distinct [H, D1, D2]"
    from h have "set (map dirname (files_with_ext p ''.h'')) = {H}" by simp
    from first_seen_same_prefix [OF this, of "dependency_include_dirs p"] d dist
    show "first_seen (map dirname (files_with_ext p ''.h'') @ dependency_include_dirs p)
            = [H, D1, D2]"
      by auto
  qed
  show ?thesis
    using 1 2 3 by (simp add: distinct_first_seen set_first_seen)
qed

theorem include_dirs_order_witness:
  "generate_manifest example_env example_project ''/ws/out/amd64'' ''tmp0build.ninja'' empty_world
     = (Inr (), snd (generate_manifest example_env example_project ''/ws/out/amd64''
                       ''tmp0build.ninja'' empty_world))
   \<and> dirname ` set (files_with_ext example_project ''.h'') = {''include''}
   \<and> dependency_include_dirs example_project = [''D1'', ''D2'', ''D1'']
   \<and> distinct [''include'', ''D1'', ''D2'']
   \<and> first_seen (map dirname (files_with_ext example_project ''.h'')
                  @ dependency_include_dirs example_project)
       = [''include'', ''D1'', ''D2'']
   \<and> filter is_includes (fst (manifest_statements example_env example_project ''/ws/out/amd64''))
       = [Variable ''includes'' (Lst [''-I$project/include'', ''-I$project/D1'', ''-I$project/D2''])]"
proof -
  have run: "generate_manifest example_env example_project ''/ws/out/amd64'' ''tmp0build.ninja'' empty_world
     = (Inr (), snd (generate_manifest example_env example_project ''/ws/out/amd64''
                       ''tmp0build.ninja'' empty_world))"
    using example_generate_manifest [of "''/ws/out/amd64''" "''tmp0build.ninja''" empty_world]
    by (metis prod.collapse)
  have dn: "dirname ''include/a.h'' = ''include''"
    by (simp add: dirname_def Let_def)
  have q: "gen_quote example_project ''$project/include'' = ''$project/include''"
      "gen_quote example_project ''$project/D1'' = ''$project/D1''"
      "gen_quote example_project ''$project/D2'' = ''$project/D2''"
    by (simp_all add: gen_quote_def example_project_simps)
  show ?thesis
    using include_dirs_order [OF run] run
    by (simp add: example_h_files example_dependency_include_dirs dn q gen_resolve_def join_def
          suffix_to_prefix)
qed

text \<open>
  C10. The extensions that \<open>generate_manifest\<close> tolerates are exactly \<open>.h\<close>, \<open>.c\<close>,
  \<open>.cc\<close>, \<open>.S\<close> and \<open>.swp\<close>, an extension being what \<open>os.path.splitext\<close> gives. A
  source file with any other extension aborts the generation. Otherwise the build
  statements of the rules \<open>cc\<close>, \<open>cxx\<close> and \<open>asm\<close> in a completed manifest are those of
  the \<open>.c\<close>, \<open>.cc\<close> and \<open>.S\<close> files, one each and in walking order (an \<open>.S\<close> file has
  a \<open>cpp\<close> statement as well when the toolchain asks for preprocessing), so that
  \<open>.h\<close> and \<open>.swp\<close> files are accepted and compiled by no rule.
\<close>

theorem tolerated_extensions:
  "supported_extensions = {''.h'', ''.c'', ''.cc'', ''.S'', ''.swp''}
   \<and> (\<not> extensions p \<subseteq> supported_extensions \<longrightarrow>
        generate_manifest e p d f w
          = (Inl (Abort_unsupported (extensions p - supported_extensions)), w))
   \<and> (extensions p \<subseteq> supported_extensions \<longrightarrow>
        (\<forall>x. fst (generate_manifest e p d f w) \<noteq> Inl (Abort_unsupported x)))
   \<and> (extensions p \<subseteq> supported_extensions \<and> snd (manifest_statements e p d) = None \<longrightarrow>
        fst (generate_manifest e p d f w) = Inr ()
        \<and> filter (has_rule ''cc'') (fst (manifest_statements e p d))
            = map (\<lambda>f. Build [gen_output e f None] ''cc'' [gen_resolve f] []) (files_with_ext p ''.c'')
        \<and> filter (has_rule ''cxx'') (fst (manifest_statements e p d))
            = map (\<lambda>f. Build [gen_output e f None] ''cxx'' [gen_resolve f] []) (files_with_ext p ''.cc'')
        \<and> filter (has_rule ''asm'') (fst (manifest_statements e p d))
            = map (\<lambda>f. Build [gen_output e f None] ''asm''
                       [if asm_requires_cpp p then gen_output e f (Some ''.asm'') else gen_resolve f] [])
                  (files_with_ext p ''.S'')
        \<and> filter (has_rule ''cpp'') (fst (manifest_statements e p d))
            = (if asm_requires_cpp p
               then map (\<lambda>f. Build [gen_output e f (Some ''.asm'')] ''cpp'' [gen_resolve f] [])
                        (files_with_ext p ''.S'')
               else []))"
proof -
  have a: "supported_extensions = {''.h'', ''.c'', ''.cc'', ''.S'', ''.swp''}"
    by (simp add: supported_extensions_def)
  have b: "\<not> extensions p \<subseteq> supported_extensions \<longrightarrow>
        generate_manifest e p d f w
          = (Inl (Abort_unsupported (extensions p - supported_extensions)), w)"
    by (simp add: generate_manifest_unsupported)
  have c: "extensions p \<subseteq> supported_extensions \<longrightarrow>
        (\<forall>x. fst (generate_manifest e p d f w) \<noteq> Inl (Abort_unsupported x))"
    using manifest_statements_no_abort [of e p d]
    by (auto simp: generate_manifest_supported split: option.splits)
  have d: "fst (generate_manifest e p d f w) = Inr ()
        \<and> filter (has_rule ''cc'') (fst (manifest_statements e p d))
            = map (\<lambda>f. Build [gen_output e f None] ''cc'' [gen_resolve f] []) (files_with_ext p ''.c'')
        \<and> filter (has_rule ''cxx'') (fst (manifest_statements e p d))
            = map (\<lambda>f. Build [gen_output e f None] ''cxx'' [gen_resolve f] []) (files_with_ext p ''.cc'')
        \<and> filter (has_rule ''asm'') (fst (manifest_statements e p d))
            = map (\<lambda>f. Build [gen_output e f None] ''asm''
                       [if asm_requires_cpp p then gen_output e f (Some ''.asm'') else gen_resolve f] [])
                  (files_with_ext p ''.S'')
        \<and> filter (has_rule ''cpp'') (fst (manifest_statements e p d))
            = (if asm_requires_cpp p
               then map (\<lambda>f. Build [gen_output e f (Some ''.asm'')] ''cpp'' [gen_resolve f] [])
                        (files_with_ext p ''.S'')
               else [])"
    if sub: "extensions p \<subseteq> supported_extensions"
      and ok: "snd (manifest_statements e p d) = None"
  proof -
    from manifest_statements_success [OF ok] obtain dirs tail where
      ss: "fst (manifest_statements e p d)
             = manifest_head e p d @ manifest_sources e p dirs
               @ [Build [project_target e p] (fst tail) (snd tail) []]"
      and tail: "fst tail \<in> {''ar'', ''link'', ''linkxx''}"
      by blast
    have files: "c_files p = files_with_ext p ''.c''" "cxx_files p = files_with_ext p ''.cc''"
      "asm_sources p = files_with_ext p ''.S''"
      by (simp_all add: c_files_def cxx_files_def asm_sources_def dict_get_source_files)
    have run: "fst (generate_manifest e p d f w) = Inr ()"
      by (simp add: generate_manifest_supported [OF sub] ok)
    have cc: "filter (has_rule ''cc'') (fst (manifest_statements e p d))
            = map (\<lambda>f. Build [gen_output e f None] ''cc'' [gen_resolve f] []) (files_with_ext p ''.c'')"
      using tail
      by (auto simp: ss filter_rule_head filter_rule_sources filter_rule_cc filter_rule_cxx
            filter_rule_asm has_rule_simps files)
    have cxx: "filter (has_rule ''cxx'') (fst (manifest_statements e p d))
            = map (\<lambda>f. Build [gen_output e f None] ''cxx'' [gen_resolve f] []) (files_with_ext p ''.cc'')"
      using tail
      by (auto simp: ss filter_rule_head filter_rule_sources filter_rule_cc filter_rule_cxx
            filter_rule_asm has_rule_simps files)
    have asm: "filter (has_rule ''asm'') (fst (manifest_statements e p d))
            = map (\<lambda>f. Build [gen_output e f None] ''asm''
                       [if asm_requires_cpp p then gen_output e f (Some ''.asm'') else gen_resolve f] [])
                  (files_with_ext p ''.S'')"
      using tail
      by (auto simp: ss filter_rule_head filter_rule_sources filter_rule_cc filter_rule_cxx
            filter_rule_asm has_rule_simps files)
    have cpp: "filter (has_rule ''cpp'') (fst (manifest_statements e p d))
            = (if asm_requires_cpp p
               then map (\<lambda>f. Build [gen_output e f (Some ''.asm'')] ''cpp'' [gen_resolve f] [])
                        (files_with_ext p ''.S'')
               else [])"
      using tail
      by (auto simp: ss filter_rule_head filter_rule_sources filter_rule_cc filter_rule_cxx
            filter_rule_asm has_rule_simps files)
    show ?thesis
      using run cc cxx asm cpp by blast
  qed
  show ?thesis
    using a b c d by blast
qed

theorem tolerated_extensions_witness:
  "\<not> extensions rust_project \<subseteq> supported_extensions
   \<and> generate_manifest example_env rust_project ''/ws/out/amd64'' ''tmp0build.ninja'' empty_world
       = (Inl (Abort_unsupported {''.rs''}), empty_world)
   \<and> extensions example_project \<subseteq> supported_extensions
   \<and> snd (manifest_statements example_env example_project ''/ws/out/amd64'') = None
   \<and> fst (generate_manifest example_env example_project ''/ws/out/amd64'' ''tmp0build.ninja'' empty_world)
       = Inr ()
   \<and> filter (has_rule ''cc'') (fst (manifest_statements example_env example_project ''/ws/out/amd64''))
       = [Build [''src/a.o''] ''cc'' [''$project/src/a.c''] []]
   \<and> filter (has_rule ''cxx'') (fst (manifest_statements example_env example_project ''/ws/out/amd64''))
       = [Build [''src/b.o''] ''cxx'' [''$project/src/b.cc''] []]
   \<and> filter (has_rule ''asm'') (fst (manifest_statements example_env example_project ''/ws/out/amd64''))
       = []"
proof -
  have out: "gen_output example_env ''src/a.c'' None = ''src/a.o''"
    "gen_output example_env ''src/b.cc'' None = ''src/b.o''"
    by (simp_all add: gen_output_def splitext_root_def splitext_ext_def basename_def Let_def
          example_run_simps)
  show ?thesis
    using tolerated_extensions [of rust_project example_env "''/ws/out/amd64''" "''tmp0build.ninja''"
            empty_world]
          tolerated_extensions [of example_project example_env "''/ws/out/amd64''"
            "''tmp0build.ninja''" empty_world]
    by (simp add: rust_unsupported example_extensions_supported example_statements_complete
          example_sources out gen_resolve_def join_def suffix_to_prefix)
qed



text \<open>
  C5. Manifest generation is deterministic. For one project snapshot on one host and
  one output directory, two runs of \<open>generate_manifest\<close>, whatever the name of the file
  they write and whatever the files and the processes before them, end in the same
  way and, when the sources are supported, leave the same content in their files: the
  writer's rendering of the statements of the project.
\<close>

theorem manifest_deterministic:
  "fst (generate_manifest e p d f1 w1) = fst (generate_manifest e p d f2 w2)
   \<and> (extensions p \<subseteq> supported_extensions \<longrightarrow>
        files (snd (generate_manifest e p d f1 w1)) (join d f1)
          = Some (writer e (fst (manifest_statements e p d)))
        \<and> files (snd (generate_manifest e p d f2 w2)) (join d f2)
            = files (snd (generate_manifest e p d f1 w1)) (join d f1))"
proof (cases "extensions p \<subseteq> supported_extensions")
  case True
  then show ?thesis
    by (simp add: generate_manifest_supported write_file_def)
next
  case False
  then show ?thesis
    by (simp add: generate_manifest_unsupported)
qed

theorem manifest_deterministic_witness:
  "extensions example_project \<subseteq> supported_extensions
   \<and> fst (generate_manifest example_env example_project ''/ws/out/amd64'' ''tmp0build.ninja'' empty_world)
       = fst (generate_manifest example_env example_project ''/ws/out/amd64'' ''tmp1build.ninja'' stale_world)
   \<and> files (snd (generate_manifest example_env example_project ''/ws/out/amd64''
                    ''tmp1build.ninja'' stale_world)) (join ''/ws/out/amd64'' ''tmp1build.ninja'')
       = files (snd (generate_manifest example_env example_project ''/ws/out/amd64''
                      ''tmp0build.ninja'' empty_world)) (join ''/ws/out/amd64'' ''tmp0build.ninja'')
   \<and> files (snd (generate_manifest example_env example_project ''/ws/out/amd64''
                    ''tmp0build.ninja'' empty_world)) (join ''/ws/out/amd64'' ''tmp0build.ninja'')
       = Some (writer example_env (fst (manifest_statements example_env example_project ''/ws/out/amd64'')))"
  using manifest_deterministic [of example_env example_project "''/ws/out/amd64''"
          "''tmp0build.ninja''" empty_world "''tmp1build.ninja''" stale_world]
  by (simp add: example_extensions_supported)

section \<open>Building\<close>

text \<open>
  C2, as the code has it. \<open>build\<close> regenerates the manifest only when the manifest is
  missing, when no staleness reason is recorded, or when the reason mentions the file
  name of the manifest or \<open>phony\<close>; otherwise it runs the executor on the manifest as
  it is. A regeneration writes the manifest to a temporary file; \<open>clean\<close> runs, before
  the swap and before \<open>build\<close>, exactly when a manifest exists on disk and differs from
  the new content; and when generation and \<open>clean\<close> succeed the temporary file replaces
  the manifest whether or not the content changed.
\<close>

theorem build_regenerates_when_stale:
  assumes sup: "extensions p \<subseteq> supported_extensions"
    and ok: "snd (manifest_statements e p (dirname (mkstemp e (manifest t) w))) = None"
    and rt: "join (dirname (mkstemp e (manifest t) w)) (basename (mkstemp e (manifest t) w))
               = mkstemp e (manifest t) w"
    and ne: "mkstemp e (manifest t) w \<noteq> manifest t"
  shows "(\<not> regenerates t w \<longrightarrow> NinjaBuildTask_build e p t w = export_and_build e t w)
       \<and> (regenerates t w \<and> \<not> manifest_changed e p t w \<longrightarrow>
            NinjaBuildTask_build e p t w
              = export_and_build e t
                  (w\<lparr>files := (files w)(mkstemp e (manifest t) w := None,
                                         manifest t \<mapsto> new_manifest e p t w)\<rparr>))
       \<and> (regenerates t w \<and> manifest_changed e p t w
            \<and> fst (run_process e (clean_cmd e t) (build_dir (ninja t)) (world_with_tmp e p t w)) = 0 \<longrightarrow>
            NinjaBuildTask_build e p t w
              = export_and_build e t
                  (w\<lparr>files := (files w)(mkstemp e (manifest t) w := None,
                                         manifest t \<mapsto> new_manifest e p t w),
                     trace := trace w @ [clean_cmd e t]\<rparr>))
       \<and> (regenerates t w \<and> fst (NinjaBuildTask_build e p t w) = Inr () \<longrightarrow>
            files (snd (NinjaBuildTask_build e p t w)) (manifest t) = Some (new_manifest e p t w)
            \<and> trace (snd (NinjaBuildTask_build e p t w))
                = trace w @ (if manifest_changed e p t w then [clean_cmd e t] else [])
                  @ (if compdb_requested e then [compdb_cmd e t] else []) @ [build_cmd e t])"
proof -
  note r = regenerate_ok [OF sup ok rt ne]
  have a: "\<not> regenerates t w \<longrightarrow> NinjaBuildTask_build e p t w = export_and_build e t w"
    by (simp add: NinjaBuildTask_build_def)
  have b: "regenerates t w \<and> \<not> manifest_changed e p t w \<longrightarrow>
            NinjaBuildTask_build e p t w
              = export_and_build e t
                  (w\<lparr>files := (files w)(mkstemp e (manifest t) w := None,
                                         manifest t \<mapsto> new_manifest e p t w)\<rparr>)"
    by (simp add: NinjaBuildTask_build_def r(1))
  have c: "regenerates t w \<and> manifest_changed e p t w
            \<and> fst (run_process e (clean_cmd e t) (build_dir (ninja t)) (world_with_tmp e p t w)) = 0 \<longrightarrow>
            NinjaBuildTask_build e p t w
              = export_and_build e t
                  (w\<lparr>files := (files w)(mkstemp e (manifest t) w := None,
                                         manifest t \<mapsto> new_manifest e p t w),
                     trace := trace w @ [clean_cmd e t]\<rparr>)"
    by (simp add: NinjaBuildTask_build_def r(2))
  have d: "files (snd (NinjaBuildTask_build e p t w)) (manifest t) = Some (new_manifest e p t w)
            \<and> trace (snd (NinjaBuildTask_build e p t w))
                = trace w @ (if manifest_changed e p t w then [clean_cmd e t] else [])
                  @ (if compdb_requested e then [compdb_cmd e t] else []) @ [build_cmd e t]"
    if reg: "regenerates t w" and fin: "fst (NinjaBuildTask_build e p t w) = Inr ()"
  proof (cases "manifest_changed e p t w")
    case False
    with b reg have eq: "NinjaBuildTask_build e p t w
              = export_and_build e t
                  (w\<lparr>files := (files w)(mkstemp e (manifest t) w := None,
                                         manifest t \<mapsto> new_manifest e p t w)\<rparr>)"
      by simp
    from fin export_and_build_ok [of e t "w\<lparr>files := (files w)(mkstemp e (manifest t) w := None,
                                         manifest t \<mapsto> new_manifest e p t w)\<rparr>"]
    show ?thesis
      using False by (simp add: eq)
  next
    case True
    show ?thesis
    proof (cases "fst (run_process e (clean_cmd e t) (build_dir (ninja t)) (world_with_tmp e p t w)) = 0")
      case rc: True
      with c reg True have eq: "NinjaBuildTask_build e p t w
              = export_and_build e t
                  (w\<lparr>files := (files w)(mkstemp e (manifest t) w := None,
                                         manifest t \<mapsto> new_manifest e p t w),
                     trace := trace w @ [clean_cmd e t]\<rparr>)"
        by simp
      from fin export_and_build_ok [of e t "w\<lparr>files := (files w)(mkstemp e (manifest t) w := None,
                                         manifest t \<mapsto> new_manifest e p t w),
                     trace := trace w @ [clean_cmd e t]\<rparr>"]
      show ?thesis
        using True by (simp add: eq)
    next
      case False
      with fin reg True show ?thesis
        by (simp add: NinjaBuildTask_build_def r(3))
    qed
  qed
  show ?thesis
    using a b c d by blast
qed

theorem build_regenerates_when_stale_witness:
  "extensions example_project \<subseteq> supported_extensions
   \<and> snd (manifest_statements example_env example_project
            (dirname (mkstemp example_env (manifest manifest_task) stale_world))) = None
   \<and> join (dirname (mkstemp example_env (manifest manifest_task) stale_world))
          (basename (mkstemp example_env (manifest manifest_task) stale_world))
       = mkstemp example_env (manifest manifest_task) stale_world
   \<and> mkstemp example_env (manifest manifest_task) stale_world \<noteq> manifest manifest_task
   \<and> regenerates manifest_task stale_world
   \<and> manifest_changed example_env example_project manifest_task stale_world
   \<and> fst (run_process example_env (clean_cmd example_env manifest_task)
             (build_dir (ninja manifest_task))
             (world_with_tmp example_env example_project manifest_task stale_world)) = 0
   \<and> fst (NinjaBuildTask_build example_env example_project manifest_task stale_world) = Inr ()
   \<and> trace (snd (NinjaBuildTask_build example_env example_project manifest_task stale_world))
       = [[''ninja'', ''-j'', ''1'', ''-t'', ''clean''], [''ninja'', ''-j'', ''1'']]
   \<and> files (snd (NinjaBuildTask_build example_env example_project manifest_task stale_world))
         (manifest manifest_task)
       = Some (new_manifest example_env example_project manifest_task stale_world)
   \<and> regenerates manifest_task current_world
   \<and> \<not> manifest_changed example_env example_project manifest_task current_world
   \<and> trace (snd (NinjaBuildTask_build example_env example_project manifest_task current_world))
       = [[''ninja'', ''-j'', ''1'']]
   \<and> files (snd (NinjaBuildTask_build example_env example_project manifest_task current_world))
         (manifest manifest_task)
       = Some (new_manifest example_env example_project manifest_task current_world)
   \<and> \<not> regenerates dirty_task queried_world
   \<and> NinjaBuildTask_build example_env example_project dirty_task queried_world
       = export_and_build example_env dirty_task queried_world"
proof -
  note sup = example_extensions_supported
  note stale = build_regenerates_when_stale [OF sup example_hyps(1) example_hyps(2) example_hyps(3),
      of stale_world]
  note current = build_regenerates_when_stale [OF sup example_hyps(1) example_hyps(2) example_hyps(3),
      of current_world]
  note queried = build_regenerates_when_stale [OF sup example_hyps(4) example_hyps(5) example_hyps(6),
      of queried_world]
  have tr: "trace current_world = []"
    by (simp add: current_world_def)
  show ?thesis
    using stale current queried
    by (simp add: sup example_hyps example_regenerates_manifest example_not_regenerates
          example_changed example_clean_ok example_export_and_build example_tasks_simps
          example_cmds example_compdb_not_requested example_world_simps example_run_simps tr
          example_mkstemp example_tmp_simps example_statements_complete)
qed

text \<open>
  C2 as stated fails: after a staleness query whose reason mentions neither the
  manifest nor \<open>phony\<close>, the build runs and succeeds without writing any file, and the
  manifest on disk is not what a generation would write.
\<close>

theorem build_without_regeneration_counterexample:
  "NinjaBuildTask_needsBuild example_env example_task (False, None) stale_world
     = (Inr (True, Some ''ninja explain: a.o is dirty''), dirty_task, queried_world)
   \<and> \<not> regenerates dirty_task queried_world
   \<and> NinjaBuildTask_build example_env example_project dirty_task queried_world
       = (Inr (), queried_world\<lparr>trace := trace queried_world @ [[''ninja'', ''-j'', ''1'']]\<rparr>)
   \<and> files queried_world (manifest dirty_task) = Some ''old''
   \<and> new_manifest example_env example_project dirty_task queried_world \<noteq> ''old''"
proof -
  have nb: "NinjaBuildTask_needsBuild example_env example_task (False, None) stale_world
     = (Inr (True, Some ''ninja explain: a.o is dirty''), dirty_task, queried_world)"
    by (simp add: example_needsBuild_stale dirty_task_def queried_world_def)
  have b: "NinjaBuildTask_build example_env example_project dirty_task queried_world
       = (Inr (), queried_world\<lparr>trace := trace queried_world @ [[''ninja'', ''-j'', ''1'']]\<rparr>)"
    by (simp add: NinjaBuildTask_build_def example_not_regenerates example_export_and_build
          example_tasks_simps)
  have f: "files queried_world (manifest dirty_task) = Some ''old''"
    by (simp add: queried_world_def example_tasks_simps example_world_simps)
  have n: "new_manifest example_env example_project dirty_task queried_world \<noteq> ''old''"
    by (simp add: new_manifest_def example_manifest_not_old)
  show ?thesis
    using nb b f n example_not_regenerates by simp
qed

text \<open>
  C8, as the code has it. A failure of the compile-command export, that is a non-zero
  exit code of the executor, aborts the build as every failure of the executor does:
  the abort carries the exit code or the captured output, and the real build is not
  invoked. When no export was asked for, or the export exits with zero, the real build
  is invoked next.
\<close>

theorem compdb_failure_aborts:
  "(compdb_requested e \<and> fst (run_process e (compdb_cmd e t) (build_dir (ninja t)) w) \<noteq> 0 \<longrightarrow>
      export_and_build e t w
        = (Inl (abort_of e (run_process e (compdb_cmd e t) (build_dir (ninja t)) w)),
           w\<lparr>trace := trace w @ [compdb_cmd e t]\<rparr>))
   \<and> (compdb_requested e \<and> fst (run_process e (compdb_cmd e t) (build_dir (ninja t)) w) = 0 \<longrightarrow>
      export_and_build e t w = Ninja_build e (ninja t) (w\<lparr>trace := trace w @ [compdb_cmd e t]\<rparr>))
   \<and> (\<not> compdb_requested e \<longrightarrow> export_and_build e t w = Ninja_build e (ninja t) w)
   \<and> (\<not> regenerates t w \<longrightarrow> NinjaBuildTask_build e p t w = export_and_build e t w)
   \<and> trace (snd (Ninja_build e (ninja t) w)) = trace w @ [build_cmd e t]"
  by (simp add: export_and_build_def Ninja_compdb_eq Ninja_build_eq NinjaBuildTask_build_def)

theorem compdb_failure_aborts_witness:
  "compdb_requested compdb_env
   \<and> fst (run_process compdb_env (compdb_cmd compdb_env dirty_task) (build_dir (ninja dirty_task))
            queried_world) \<noteq> 0
   \<and> export_and_build compdb_env dirty_task queried_world
       = (Inl (Abort_output [] [''compdb failed'']),
          queried_world\<lparr>trace := trace queried_world @ [[''ninja'', ''-j'', ''1'', ''-t'', ''compdb'']]\<rparr>)
   \<and> compdb_requested compdb_ok_env
   \<and> fst (run_process compdb_ok_env (compdb_cmd compdb_ok_env dirty_task)
            (build_dir (ninja dirty_task)) queried_world) = 0
   \<and> export_and_build compdb_ok_env dirty_task queried_world
       = Ninja_build compdb_ok_env (ninja dirty_task)
           (queried_world\<lparr>trace := trace queried_world @ [[''ninja'', ''-j'', ''1'', ''-t'', ''compdb'']]\<rparr>)
   \<and> \<not> compdb_requested example_env
   \<and> export_and_build example_env dirty_task queried_world
       = Ninja_build example_env (ninja dirty_task) queried_world
   \<and> \<not> regenerates dirty_task queried_world
   \<and> NinjaBuildTask_build compdb_env example_project dirty_task queried_world
       = export_and_build compdb_env dirty_task queried_world"
  using compdb_failure_aborts [of compdb_env dirty_task queried_world example_project]
        compdb_failure_aborts [of compdb_ok_env dirty_task queried_world example_project]
        compdb_failure_aborts [of example_env dirty_task queried_world example_project]
  by (simp add: compdb_env_simps compdb_env_cmds compdb_env_fails abort_of_def truthy_def
        example_compdb_not_requested example_not_regenerates)

text \<open>
  C8 as stated fails: with an export asked for and exiting with 1, \<open>build\<close> aborts
  with the captured output, and the command of the real build is not among the
  commands it has run.
\<close>

theorem compdb_failure_counterexample:
  "compdb_requested compdb_env
   \<and> fst (run_process compdb_env (compdb_cmd compdb_env dirty_task) (build_dir (ninja dirty_task))
            queried_world) = 1
   \<and> NinjaBuildTask_build compdb_env example_project dirty_task queried_world
       = (Inl (Abort_output [] [''compdb failed'']),
          queried_world\<lparr>trace := trace queried_world @ [[''ninja'', ''-j'', ''1'', ''-t'', ''compdb'']]\<rparr>)
   \<and> build_cmd compdb_env dirty_task
       \<notin> set (trace (snd (NinjaBuildTask_build compdb_env example_project dirty_task queried_world)))"
proof -
  have b: "NinjaBuildTask_build compdb_env example_project dirty_task queried_world
       = (Inl (Abort_output [] [''compdb failed'']),
          queried_world\<lparr>trace := trace queried_world @ [[''ninja'', ''-j'', ''1'', ''-t'', ''compdb'']]\<rparr>)"
    by (simp add: NinjaBuildTask_build_def example_not_regenerates export_and_build_def
          Ninja_compdb_eq compdb_env_simps compdb_env_fails compdb_env_cmds abort_of_def truthy_def)
  have t: "trace queried_world = [[''ninja'', ''-j'', ''1'', ''-n'', ''-d'', ''explain'']]"
    by (simp add: queried_world_def)
  show ?thesis
    by (simp add: b t compdb_env_simps compdb_env_fails compdb_env_cmds)
qed

section \<open>Architectures\<close>

text \<open>
  C6. A toolchain is available for the host architecture only. For a build task of
  any other architecture whose build the superclass does not forbid, \<open>buildForbidden\<close>
  aborts with the message \<open>Missing toolchain for\<close> that architecture, and the
  execution of the task ends there with the world as it was: no process has been run.
\<close>

theorem missing_toolchain_aborts:
  "(\<not> is_available e (Toolchain_for (target_arch t))) = (target_arch t \<noteq> get_arch e)
   \<and> (target_arch t \<noteq> get_arch e \<and> \<not> forbidden \<longrightarrow>
        buildForbidden e t forbidden
          = Inl (Abort_message (''Missing toolchain for '' @ target_arch t @ ''.'')))
   \<and> (target_arch t = get_arch e \<or> forbidden \<longrightarrow> buildForbidden e t forbidden = Inr forbidden)
   \<and> (target_arch t \<noteq> get_arch e \<and> \<not> super_buildForbidden e (target_arch t) \<longrightarrow>
        BuildTask_execute e p t w
          = (Inl (Abort_message (''Missing toolchain for '' @ target_arch t @ ''.'')), w))"
  by (auto simp: buildForbidden_def BuildTask_execute_def is_available_def is_native_def
        Toolchain_for_def)

theorem missing_toolchain_aborts_witness:
  "target_arch cross_task \<noteq> get_arch example_env
   \<and> \<not> is_available example_env (Toolchain_for (target_arch cross_task))
   \<and> \<not> super_buildForbidden example_env (target_arch cross_task)
   \<and> buildForbidden example_env cross_task False
       = Inl (Abort_message ''Missing toolchain for aarch64.'')
   \<and> BuildTask_execute example_env example_project cross_task stale_world
       = (Inl (Abort_message ''Missing toolchain for aarch64.''), stale_world)
   \<and> target_arch example_task = get_arch example_env
   \<and> buildForbidden example_env example_task False = Inr False
   \<and> buildForbidden example_env cross_task True = Inr True"
  using missing_toolchain_aborts [of example_env cross_task False example_project stale_world]
        missing_toolchain_aborts [of example_env example_task False example_project stale_world]
        missing_toolchain_aborts [of example_env cross_task True example_project stale_world]
  by (simp add: cross_task_simps example_task_simps example_run_simps example_super_buildForbidden)

text \<open>
  C9. When no assertion fails (the deliverable's name and the entries of the
  \<open>include\<close> directory are relative), \<open>getArchivableResults\<close> yields, for each
  architecture it goes through that is the host or is not filtered by the single mode,
  the pair of the deliverable and, unless the single mode is asked for, one pair for
  every entry of the \<open>include\<close> directory; so it does for every available
  architecture. When \<open>multiarch\<close> is declared the archive path is the path under the
  directory named after the system and the architecture; otherwise it is the path
  itself.
\<close>

theorem archivable_results_per_arch:
  assumes "\<not> isabs (project_target e p)" and "\<forall>h \<in> set (include_listing p). \<not> isabs h"
  shows "getArchivableResults e p use_relpath single
           = (concat (map (\<lambda>arch. if arch = get_arch e \<or> \<not> single
                                   then deliverable_pair e p use_relpath arch
                                        # (if single then []
                                           else map (header_pair e p use_relpath arch)
                                                    (include_listing p))
                                   else [])
                          (archs e p)), None)
       \<and> (\<forall>arch \<in> set (archs e p). is_available e (Toolchain_for arch) \<longrightarrow>
            deliverable_pair e p use_relpath arch
              \<in> set (fst (getArchivableResults e p use_relpath single))
            \<and> (\<not> single \<longrightarrow>
                 (\<forall>h \<in> set (include_listing p).
                    header_pair e p use_relpath arch h
                      \<in> set (fst (getArchivableResults e p use_relpath single)))))
       \<and> (\<forall>arch. multiarch p \<noteq> [] \<and> CHR ''/'' \<notin> set arch \<longrightarrow>
            snd (deliverable_pair e p use_relpath arch)
              = get_os e @ ''-'' @ arch @ ''/'' @ archive_name use_relpath (project_target e p)
            \<and> (\<forall>h \<in> set (include_listing p).
                 snd (header_pair e p use_relpath arch h)
                   = get_os e @ ''-'' @ arch @ ''/'' @ archive_name use_relpath (join ''include'' h)))
       \<and> (\<forall>arch. multiarch p = [] \<longrightarrow>
            snd (deliverable_pair e p use_relpath arch)
              = archive_name use_relpath (project_target e p)
            \<and> (\<forall>h \<in> set (include_listing p).
                 snd (header_pair e p use_relpath arch h)
                   = archive_name use_relpath (join ''include'' h)))"
proof -
  have eq: "getArchivableResults e p use_relpath single
           = (concat (map (\<lambda>arch. if arch = get_arch e \<or> \<not> single
                                   then deliverable_pair e p use_relpath arch
                                        # (if single then []
                                           else map (header_pair e p use_relpath arch)
                                                    (include_listing p))
                                   else [])
                          (archs e p)), None)"
  proof -
    have "arch_results e p use_relpath single
            = (\<lambda>arch. map Inr (if arch = get_arch e \<or> \<not> single
                                   then deliverable_pair e p use_relpath arch
                                        # (if single then []
                                           else map (header_pair e p use_relpath arch)
                                                    (include_listing p))
                                   else []))"
      by (rule ext) (simp add: archivable_results_ok [OF assms] is_native_def Toolchain_for_def)
    then show ?thesis
      by (simp add: getArchivableResults_def concat_map_Inr collect_all_Inr)
  qed
  have mem: "\<forall>arch \<in> set (archs e p). is_available e (Toolchain_for arch) \<longrightarrow>
            deliverable_pair e p use_relpath arch
              \<in> set (fst (getArchivableResults e p use_relpath single))
            \<and> (\<not> single \<longrightarrow>
                 (\<forall>h \<in> set (include_listing p).
                    header_pair e p use_relpath arch h
                      \<in> set (fst (getArchivableResults e p use_relpath single))))"
    unfolding eq
    by (auto simp: is_available_def is_native_def Toolchain_for_def)
  have na: "\<not> isabs (archive_name use_relpath (project_target e p))"
    using assms(1) by (simp add: archive_name_def not_isabs_basename)
  have nh: "\<not> isabs (archive_name use_relpath (join ''include'' h))"
    if "h \<in> set (include_listing p)" for h
    using assms(2) that by (simp add: archive_name_def not_isabs_basename isabs_include)
  have pre: "\<forall>arch. multiarch p \<noteq> [] \<and> CHR ''/'' \<notin> set arch \<longrightarrow>
            snd (deliverable_pair e p use_relpath arch)
              = get_os e @ ''-'' @ arch @ ''/'' @ archive_name use_relpath (project_target e p)
            \<and> (\<forall>h \<in> set (include_listing p).
                 snd (header_pair e p use_relpath arch h)
                   = get_os e @ ''-'' @ arch @ ''/'' @ archive_name use_relpath (join ''include'' h))"
    using na nh
    by (simp add: deliverable_pair_def header_pair_def target_arch_path_def target_def
          Toolchain_for_def join_arch_prefix archive_name_def [symmetric])
  have root: "\<forall>arch. multiarch p = [] \<longrightarrow>
            snd (deliverable_pair e p use_relpath arch)
              = archive_name use_relpath (project_target e p)
            \<and> (\<forall>h \<in> set (include_listing p).
                 snd (header_pair e p use_relpath arch h)
                   = archive_name use_relpath (join ''include'' h))"
    using na nh
    by (auto simp: deliverable_pair_def header_pair_def target_arch_path_def isabs_def
          join_def [of "[]"] archive_name_def [symmetric])
  show ?thesis
    using eq mem pre root by blast
qed

theorem archivable_results_per_arch_witness:
  "\<not> isabs (project_target example_env example_project)
   \<and> include_listing example_project = [''a.h''] \<and> \<not> isabs ''a.h''
   \<and> ''amd64'' \<in> set (archs example_env example_project)
   \<and> is_available example_env (Toolchain_for ''amd64'')
   \<and> multiarch example_project \<noteq> [] \<and> CHR ''/'' \<notin> set ''amd64''
   \<and> getArchivableResults example_env example_project True False
       = ([(''/ws/out/amd64/libnative.so'', ''linux-amd64/libnative.so''),
           (''/ws/proj/include/a.h'', ''linux-amd64/include/a.h'')], None)
   \<and> getArchivableResults example_env multi_project True True
       = ([(''/ws/out/amd64/libnative.so'', ''linux-amd64/libnative.so'')], None)
   \<and> multiarch plain_project = []
   \<and> getArchivableResults example_env plain_project False False
       = ([(''/ws/out/amd64/libnative.so'', ''libnative.so''), (''/ws/proj/include/a.h'', ''a.h'')],
          None)"
  using archivable_results_per_arch [of example_env example_project True False]
        archivable_results_per_arch [of example_env multi_project True True]
        archivable_results_per_arch [of example_env plain_project False False]
  by (simp add: example_target example_archs example_project_simps example_variants_simps
        example_pairs isabs_def is_available_def is_native_def Toolchain_for_def
        example_run_simps)



end
